theory Spec2Isabelle
  imports Complex_Main
begin

section \<open>Decoded JSON values and the Python operations the client applies to them\<close>

text \<open>
  The client (corenet/socket\_to\_sas.py) works on whatever \<open>json.loads\<close> returns. A decoded
  value is \<open>None\<close>, a number, a string, a list or a dict. JSON \<open>true\<close> and \<open>false\<close> are the
  numbers 1 and 0: Python's \<open>bool\<close> is a subclass of \<open>int\<close>, and no operation the client uses
  (truth test, \<open>==\<close>, \<open>+\<close> on strings, subscripting, \<open>isinstance(x, list)\<close>, \<open>float\<close>) tells them
  apart. A dict is held as its association list, looked up with \<open>map_of\<close>.
\<close>

datatype json =
    JNull
  | JNum rat
  | JStr string
  | JArr "json list"
  | JObj "(string \<times> json) list"

datatype error =
    TypeError
  | KeyError
  | IndexError
  | AttributeError
  | UnboundLocalError
  | NameError
  | RecursionError
  | ValueError

text \<open>Python's truth test, as in \<open>if(x)\<close> and \<open>not x\<close>.\<close>

fun truthy :: "json \<Rightarrow> bool" where
  "truthy JNull = False"
| "truthy (JNum q) = (q \<noteq> 0)"
| "truthy (JStr s) = (s \<noteq> [])"
| "truthy (JArr xs) = (xs \<noteq> [])"
| "truthy (JObj kvs) = (kvs \<noteq> [])"


text \<open>
  \<open>_grabPossibleEntry(entry, key)\<close>: \<open>entry[key]\<close>, with \<open>KeyError\<close> (and only it) turned into
  \<open>None\<close>. The key is a string, or \<open>None\<close> where the caller passes an unset variable; a dict
  decoded from JSON has no \<open>None\<close> key.
\<close>

fun grabPossibleEntry :: "json \<Rightarrow> string option \<Rightarrow> error + json" where
  "grabPossibleEntry (JObj kvs) (Some k) =
     (case map_of kvs k of Some v \<Rightarrow> Inr v | None \<Rightarrow> Inr JNull)"
| "grabPossibleEntry (JObj kvs) None = Inr JNull"
| "grabPossibleEntry _ _ = Inl TypeError"

text \<open>\<open>"literal" + x\<close>: concatenation needs a string on the right.\<close>

fun str_add :: "string \<Rightarrow> json \<Rightarrow> error + string" where
  "str_add l (JStr s) = Inr (l @ s)"
| "str_add l _ = Inl TypeError"

text \<open>\<open>for x in v\<close>: a list gives its elements, a dict its keys, a string its characters.\<close>

fun py_iter :: "json \<Rightarrow> error + json list" where
  "py_iter (JArr xs) = Inr xs"
| "py_iter (JObj kvs) = Inr (map (\<lambda>kv. JStr (fst kv)) kvs)"
| "py_iter (JStr s) = Inr (map (\<lambda>c. JStr [c]) s)"
| "py_iter _ = Inl TypeError"

text \<open>\<open>str(n)\<close> for the loop counters, which are never negative.\<close>

definition digit :: "nat \<Rightarrow> char" where
  "digit d = char_of (48 + d)"

fun str_nat :: "nat \<Rightarrow> string" where
  "str_nat n = (if n < 10 then [digit n] else str_nat (n div 10) @ [digit (n mod 10)])"

declare str_nat.simps [simp del]

definition apos :: string where
  "apos = [CHR 0x27]"

section \<open>Nodes, grants and the global state of the module\<close>

text \<open>
  Modelled from the spec: the classes \<open>Node\<close> (module usrps) and its \<open>Grant\<close> are not
  part of the source under verification; only their callers are. A Node has a network address, a
  serial number, the \<open>cbsdId\<close> the server assigns, a \<open>measReportConfig\<close> and exactly one
  Grant; a Grant has grantId, status, grantExpireTime, transmitExpireTime, heartbeatInterval
  and channelType, and is created empty with status NONE. The setters store the value they are
  given; the getters return the field. Fields filled from a response hold the decoded value.
\<close>

datatype grant_status = NONE | REQUESTED | GRANTED | AUTHORIZED | RELINQUISHED

record grant =
  grantId :: json
  grantStatus :: grant_status
  grantExpireTime :: json
  transmitExpireTime :: json
  heartbeatInterval :: json
  channelType :: json

definition empty_grant :: grant where
  "empty_grant = \<lparr> grantId = JNull, grantStatus = NONE, grantExpireTime = JNull,
     transmitExpireTime = JNull, heartbeatInterval = JNull, channelType = JNull \<rparr>"

record node =
  ipAddress :: json
  serialNumber :: json
  cbsdId :: json
  measReportConfig :: json
  nodeGrant :: grant

text \<open>
  Node objects live in a store and are named by reference, since \<open>created_nodes\<close> and
  \<open>tempNodeList\<close> hold the same objects. \<open>tempNodeList\<close> holds Nodes when a simulation
  request builder filled it; \<open>cmdRegistrationReq\<close> appends the serial number typed at the
  prompt instead.
\<close>

datatype queue_entry = NodeRef nat | SerialNumber json

datatype callback = node_stop | heartbeatRequest_cb

record timer =
  interval :: rat
  target :: callback
  cancelled :: bool
  fired :: bool

datatype printed = Line string | Repr json

record state =
  heap :: "nat \<Rightarrow> node"
  created_nodes :: "nat list"
  tempNodeList :: "queue_entry list"
  heartbeatTimer :: "nat option"
  sim_mode :: bool
  timers :: "timer list"
  stdout :: "printed list"
  emitted :: "(string \<times> json) list"
  node_stop_calls :: nat

subsection \<open>Statements that may raise, on the global state\<close>

type_synonym 'a m = "state \<Rightarrow> (error + 'a) \<times> state"

definition ret :: "'a \<Rightarrow> 'a m" where
  "ret x s = (Inr x, s)"

definition raise :: "error \<Rightarrow> 'a m" where
  "raise e s = (Inl e, s)"

definition lift :: "error + 'a \<Rightarrow> 'a m" where
  "lift r s = (r, s)"

definition bnd :: "'a m \<Rightarrow> ('a \<Rightarrow> 'b m) \<Rightarrow> 'b m" where
  "bnd f g s = (case f s of (Inl e, s') \<Rightarrow> (Inl e, s') | (Inr x, s') \<Rightarrow> g x s')"

definition print :: "string \<Rightarrow> unit m" where
  "print l s = (Inr (), s\<lparr>stdout := stdout s @ [Line l]\<rparr>)"

text \<open>\<open>print(l + x)\<close>, and \<open>print(l + x + r)\<close>: the operands are added before anything is printed.\<close>

definition print_add :: "string \<Rightarrow> json \<Rightarrow> unit m" where
  "print_add l x = bnd (lift (str_add l x)) print"

definition print_add3 :: "string \<Rightarrow> json \<Rightarrow> string \<Rightarrow> unit m" where
  "print_add3 l x r = bnd (lift (str_add l x)) (\<lambda>t. print (t @ r))"

text \<open>A \<open>for\<close> loop with its counter \<open>iter\<close> and the local variables it carries over.\<close>

fun for_each :: "(nat \<Rightarrow> 'l \<Rightarrow> 'a \<Rightarrow> 'l m) \<Rightarrow> nat \<Rightarrow> 'l \<Rightarrow> 'a list \<Rightarrow> 'l m" where
  "for_each body i l [] = ret l"
| "for_each body i l (x # xs) = bnd (body i l x) (\<lambda>l'. for_each body (Suc i) l' xs)"

subsection \<open>Methods of Node and Grant\<close>

text \<open>
  A method call on an entry of \<open>tempNodeList\<close>: on a Node it reads or writes the object in the
  store; on a string (a serial number) it raises \<open>AttributeError\<close>.
\<close>

fun getCbsdId :: "queue_entry \<Rightarrow> json m" where
  "getCbsdId (NodeRef r) = (\<lambda>s. (Inr (cbsdId (heap s r)), s))"
| "getCbsdId (SerialNumber x) = raise AttributeError"

fun getIpAddress :: "queue_entry \<Rightarrow> json m" where
  "getIpAddress (NodeRef r) = (\<lambda>s. (Inr (ipAddress (heap s r)), s))"
| "getIpAddress (SerialNumber x) = raise AttributeError"

fun getSerialNumber :: "queue_entry \<Rightarrow> json m" where
  "getSerialNumber (NodeRef r) = (\<lambda>s. (Inr (serialNumber (heap s r)), s))"
| "getSerialNumber (SerialNumber x) = raise AttributeError"

fun setCbsdId :: "queue_entry \<Rightarrow> json \<Rightarrow> unit m" where
  "setCbsdId (NodeRef r) v =
     (\<lambda>s. (Inr (), s\<lparr>heap := (heap s)(r := (heap s r)\<lparr>cbsdId := v\<rparr>)\<rparr>))"
| "setCbsdId (SerialNumber x) v = raise AttributeError"

fun setMeasReportConfig :: "queue_entry \<Rightarrow> json \<Rightarrow> unit m" where
  "setMeasReportConfig (NodeRef r) v =
     (\<lambda>s. (Inr (), s\<lparr>heap := (heap s)(r := (heap s r)\<lparr>measReportConfig := v\<rparr>)\<rparr>))"
| "setMeasReportConfig (SerialNumber x) v = raise AttributeError"

text \<open>
  \<open>node.getIpaAddress\<close> in \<open>simRegistrationReq\<close>: the accessor every other place calls is
  \<open>getIpAddress()\<close>; this name is no attribute of a Node, so reading it raises
  \<open>AttributeError\<close>. (Were it a method, it is not called here, and adding a method to a
  string raises \<open>TypeError\<close>: the statement raises either way.)
\<close>

definition getIpaAddress :: "queue_entry \<Rightarrow> json m" where
  "getIpaAddress e = raise AttributeError"

text \<open>The update a sequence of Grant setters makes to the Grant of the Node at \<open>r\<close>.\<close>

definition update_grant :: "nat \<Rightarrow> (grant \<Rightarrow> grant) \<Rightarrow> unit m" where
  "update_grant r f s =
     (Inr (), s\<lparr>heap := (heap s)(r := (heap s r)\<lparr>nodeGrant := f (nodeGrant (heap s r))\<rparr>)\<rparr>)"

section \<open>Helper functions of the module\<close>

text \<open>
  The two searches read the Nodes and change nothing, so each is a function of the store and
  the list it walks.
\<close>

fun findTempNodeByCbsdId_in :: "(nat \<Rightarrow> node) \<Rightarrow> queue_entry list \<Rightarrow> json \<Rightarrow> error + nat option" where
  "findTempNodeByCbsdId_in h [] c = Inr None"
| "findTempNodeByCbsdId_in h (NodeRef r # es) c =
     (if cbsdId (h r) = c then Inr (Some r) else findTempNodeByCbsdId_in h es c)"
| "findTempNodeByCbsdId_in h (SerialNumber x # es) c = Inl AttributeError"

definition findTempNodeByCbsdId :: "json \<Rightarrow> nat option m" where
  "findTempNodeByCbsdId c s = (findTempNodeByCbsdId_in (heap s) (tempNodeList s) c, s)"

fun findCreatedNodeByIp_in :: "(nat \<Rightarrow> node) \<Rightarrow> nat list \<Rightarrow> json \<Rightarrow> nat option" where
  "findCreatedNodeByIp_in h [] address = None"
| "findCreatedNodeByIp_in h (r # rs) address =
     (if address = ipAddress (h r) then Some r else findCreatedNodeByIp_in h rs address)"

definition findCreatedNodeByIp :: "json \<Rightarrow> nat option m" where
  "findCreatedNodeByIp address s =
     (Inr (findCreatedNodeByIp_in (heap s) (created_nodes s) address), s)"

definition reqAddressToNode :: "json \<Rightarrow> bool \<Rightarrow> nat option m" where
  "reqAddressToNode request mustBeRegistered =
     bnd (lift (grabPossibleEntry request (Some ''nodeIp''))) (\<lambda>address.
     if \<not> truthy address then
       bnd (print ''No nodeIp address found.'') (\<lambda>_. ret None)
     else
       bnd (findCreatedNodeByIp address) (\<lambda>found.
       case found of
         None \<Rightarrow>
           bnd (print_add3 (''No Created Node was found with the IP Address: '' @ apos)
                  address (apos @ ''.'')) (\<lambda>_. ret None)
       | Some r \<Rightarrow>
           bnd (getCbsdId (NodeRef r)) (\<lambda>c.
           if mustBeRegistered \<and> \<not> truthy c then
             bnd (print ''Node found but not yet registered.'') (\<lambda>_. ret None)
           else ret (Some r))))"

definition isValidResponse :: "json \<Rightarrow> bool m" where
  "isValidResponse response =
     (if truthy response then
        bnd (lift (grabPossibleEntry response (Some ''responseCode''))) (\<lambda>responseCode.
        if \<not> truthy responseCode then
          bnd (print ''SAS Error: No response code provided.'') (\<lambda>_. ret False)
        else
          bnd (print_add ''Response Code: '' responseCode) (\<lambda>_.
          bnd (lift (grabPossibleEntry response (Some ''responseMessage''))) (\<lambda>responseMessage.
          bnd (if truthy responseMessage
               then print_add ''Response Message: '' responseMessage else ret ()) (\<lambda>_.
          bnd (lift (grabPossibleEntry response (Some ''responseData''))) (\<lambda>responseData.
          bnd (if truthy responseData
               then print_add ''Response Data: '' responseData else ret ()) (\<lambda>_.
          if responseCode \<noteq> JStr ''0'' then
            bnd (print ''SAS Error: Registration Unsuccessful (non-zero response code).'')
              (\<lambda>_. ret False)
          else ret True))))))
      else bnd (print ''SAS Error: No reponse object found.'') (\<lambda>_. ret False))"

section \<open>Registration\<close>

text \<open>
  Modelled from the spec: the request classes of module WinnForum are not part of the source
  under verification. \<open>RegistrationRequest(...).asdict()\<close> is the request object with the
  fields it was built from, under the names the request builder uses.
\<close>

definition RegistrationRequest :: "json list \<Rightarrow> json" where
  "RegistrationRequest vs =
     JObj (zip [''userId'', ''fccId'', ''cbsdSerialNumber'', ''callSign'', ''cbsdCategory'',
                ''cbsdInfo'', ''airInterface'', ''installationParam'', ''measCapability'',
                ''groupingParam'', ''cpiSignatureData'', ''vtParams''] vs)"

definition GrantRequest :: "json list \<Rightarrow> json" where
  "GrantRequest vs =
     JObj (zip [''cbsdId'', ''operationParam'', ''measReport'', ''vtGrantParams''] vs)"

definition reset_tempNodeList :: "unit m" where
  "reset_tempNodeList s = (Inr (), s\<lparr>tempNodeList := []\<rparr>)"

definition append_tempNodeList :: "queue_entry \<Rightarrow> unit m" where
  "append_tempNodeList e s = (Inr (), s\<lparr>tempNodeList := tempNodeList s @ [e]\<rparr>)"

text \<open>
  The body of the loop of \<open>simRegistrationReq\<close>; \<open>arr\<close> is the list of requests built so
  far, and \<open>continue\<close> leaves it as it is.
\<close>

definition simRegistrationReq_body :: "nat \<Rightarrow> json list \<Rightarrow> json \<Rightarrow> json list m" where
  "simRegistrationReq_body iter arr request =
     bnd (print (''Creating Registration Request ['' @ str_nat (iter + 1) @ '']:'')) (\<lambda>_.
     bnd (reqAddressToNode request False) (\<lambda>found.
     case found of
       None \<Rightarrow> bnd (print ''Registration Request invalid.'') (\<lambda>_. ret arr)
     | Some r \<Rightarrow>
         bnd (getSerialNumber (NodeRef r)) (\<lambda>cbsdSerialNumber.
         if \<not> truthy cbsdSerialNumber then
           bnd (getIpaAddress (NodeRef r)) (\<lambda>a.
           bnd (print_add3 (''No cbsdSerialNumber found for the node with IP Address: '' @ apos)
                  a (apos @ ''. Registration Request invalid.'')) (\<lambda>_. ret arr))
         else
           bnd (lift (grabPossibleEntry request (Some ''userId''))) (\<lambda>userId.
           if \<not> truthy userId then
             bnd (print ''No userId found for simRegistrationReq. Registration Request invalid.'')
               (\<lambda>_. ret arr)
           else
             bnd (lift (grabPossibleEntry request (Some ''fccId''))) (\<lambda>fccId.
             if \<not> truthy fccId then
               bnd (print ''No fccId found for simRegistrationReq. Registration Request invalid.'')
                 (\<lambda>_. ret arr)
             else
               bnd (lift (grabPossibleEntry request (Some ''callSign''))) (\<lambda>callSign.
               bnd (lift (grabPossibleEntry request (Some ''cbsdCategory''))) (\<lambda>cbsdCategory.
               bnd (lift (grabPossibleEntry request (Some ''cbsdInfo''))) (\<lambda>cbsdInfo.
               bnd (lift (grabPossibleEntry request (Some ''airInterface''))) (\<lambda>airInterface.
               bnd (lift (grabPossibleEntry request None)) (\<lambda>installationParam.
               bnd (lift (grabPossibleEntry request (Some ''measCapability''))) (\<lambda>measCapability.
               bnd (lift (grabPossibleEntry request (Some ''groupingParam''))) (\<lambda>groupingParam.
               bnd (lift (grabPossibleEntry request (Some ''cpiSignatureData''))) (\<lambda>cpiSignatureData.
               bnd (lift (grabPossibleEntry request (Some ''vtParams''))) (\<lambda>vtParams.
               bnd (append_tempNodeList (NodeRef r)) (\<lambda>_.
               ret (arr @ [RegistrationRequest [userId, fccId, cbsdSerialNumber, callSign,
                      cbsdCategory, cbsdInfo, airInterface, installationParam, measCapability,
                      groupingParam, cpiSignatureData, vtParams]]))))))))))))))))"

definition simRegistrationReq :: "json \<Rightarrow> json list m" where
  "simRegistrationReq requests =
     bnd reset_tempNodeList (\<lambda>_.
     bnd (lift (py_iter requests)) (\<lambda>rs.
     for_each simRegistrationReq_body 0 [] rs))"

text \<open>
  The body of the loop of \<open>handleRegistrationResponse\<close>. The line that prints the
  measurement report configuration adds a list to a string, whatever was received.
\<close>

definition wrap_list :: "json \<Rightarrow> json" where
  "wrap_list v = (case v of JArr xs \<Rightarrow> JArr xs | _ \<Rightarrow> JArr [v])"

definition handleRegistrationResponse_body :: "nat \<Rightarrow> unit \<Rightarrow> json \<Rightarrow> unit m" where
  "handleRegistrationResponse_body iter u regResponse =
     bnd (print (''Registration Response ['' @ str_nat (iter + 1) @ '']:'')) (\<lambda>_.
     bnd (lift (grabPossibleEntry regResponse (Some ''response''))) (\<lambda>response.
     bnd (isValidResponse response) (\<lambda>valid.
     if \<not> valid then print ''Registration invalid.''
     else
       bnd (lift (grabPossibleEntry regResponse (Some ''cbsdId''))) (\<lambda>cbsdId'.
       if truthy cbsdId' then
         bnd (\<lambda>s. if iter < length (tempNodeList s)
                   then (Inr (tempNodeList s ! iter), s) else (Inl IndexError, s)) (\<lambda>node.
         bnd (setCbsdId node cbsdId') (\<lambda>_.
         bnd (getIpAddress node) (\<lambda>a.
         bnd (lift (str_add (''Node with IP Address: '' @ apos) a)) (\<lambda>t.
         bnd (print_add3 (t @ apos @ '' is given CBSD ID# : '' @ apos) cbsdId' (apos @ ''.''))
           (\<lambda>_.
         bnd (lift (grabPossibleEntry response (Some ''measReportConfig''))) (\<lambda>mrc.
         if truthy mrc then
           bnd (print_add ''Measurment Report Configuration(s) Assigned: '' (wrap_list mrc))
             (\<lambda>_. setMeasReportConfig node (wrap_list mrc))
         else ret ()))))))
       else print ''SAS Error: No cbsdId provided. Registration invalid.''))))"

definition handleRegistrationResponse :: "json \<Rightarrow> unit m" where
  "handleRegistrationResponse json_data =
     bnd (lift (grabPossibleEntry json_data (Some ''registrationResponse''))) (\<lambda>regResponses.
     if \<not> truthy regResponses then
       print (''SAS Error: Unreadable data. Expecting JSON formatted payload. '' @
              ''Registration invalid.'')
     else
       bnd (print ''Registration Response Received'') (\<lambda>_.
       bnd (lift (py_iter regResponses)) (\<lambda>rs.
       for_each handleRegistrationResponse_body 0 () rs)))"

section \<open>Grant\<close>

definition simGrantReq_body :: "nat \<Rightarrow> json list \<Rightarrow> json \<Rightarrow> json list m" where
  "simGrantReq_body iter arr request =
     bnd (print (''Grant Request ['' @ str_nat (iter + 1) @ apos @ '':'')) (\<lambda>_.
     bnd (reqAddressToNode request True) (\<lambda>found.
     case found of
       None \<Rightarrow> bnd (print ''Grant Request invalid.'') (\<lambda>_. ret arr)
     | Some r \<Rightarrow>
         bnd (getCbsdId (NodeRef r)) (\<lambda>cbsdId'.
         if \<not> truthy cbsdId' then
           bnd (getIpAddress (NodeRef r)) (\<lambda>a.
           bnd (print_add3 (''No cbsdId found for the node with IP Address: '' @ apos)
                  a (apos @ ''. Grant Request invalid.'')) (\<lambda>_. ret arr))
         else
           bnd (lift (grabPossibleEntry request (Some ''measReport''))) (\<lambda>measReport.
           bnd (lift (grabPossibleEntry request (Some ''operationParam''))) (\<lambda>operationParam.
           if \<not> truthy operationParam then
             bnd (print ''No opeartionParam found. Grant Request invalid.'') (\<lambda>_. ret arr)
           else
             bnd (lift (grabPossibleEntry request (Some ''vtGrantParams''))) (\<lambda>vtGrantParams.
             bnd (append_tempNodeList (NodeRef r)) (\<lambda>_.
             ret (arr @ [GrantRequest [cbsdId', operationParam, measReport,
                                       vtGrantParams]]))))))))"

definition simGrantReq :: "json \<Rightarrow> json list m" where
  "simGrantReq requests =
     bnd reset_tempNodeList (\<lambda>_.
     bnd (lift (py_iter requests)) (\<lambda>rs.
     for_each simGrantReq_body 0 [] rs))"

text \<open>
  The block that prints the operation parameters the server suggests, which
  \<open>handleGrantResponse\<close> and \<open>handleHeartbeatResponse\<close> both run on an invalid response.
  \<open>low\<close> and \<open>high\<close> are local variables of the handler, assigned only when a frequency
  range came; they are unbound (\<open>None\<close> here) until then and keep their values from one
  element to the next.
\<close>

type_synonym locals = "json option \<times> json option"

definition suggested_operationParam :: "locals \<Rightarrow> json \<Rightarrow> locals m" where
  "suggested_operationParam lh element =
     bnd (lift (grabPossibleEntry element (Some ''operationParam''))) (\<lambda>operationParam.
     if truthy operationParam then
       bnd (print ''Suggested Operation Parameters:'') (\<lambda>_.
       bnd (lift (grabPossibleEntry operationParam (Some ''maxEirp''))) (\<lambda>eirp.
       bnd (lift (grabPossibleEntry operationParam (Some ''operationFrequencyRange'')))
         (\<lambda>freqRange.
       bnd (if truthy freqRange then
              bnd (lift (grabPossibleEntry freqRange (Some ''lowFrequency''))) (\<lambda>low.
              bnd (lift (grabPossibleEntry freqRange (Some ''highFrequency''))) (\<lambda>high.
              ret (Some low, Some high)))
            else ret lh) (\<lambda>lh'.
       bnd (case fst lh' of
              None \<Rightarrow> raise UnboundLocalError
            | Some low \<Rightarrow>
                if \<not> truthy low then ret ()
                else (case snd lh' of
                        None \<Rightarrow> raise UnboundLocalError
                      | Some high \<Rightarrow>
                          if truthy high \<and> truthy eirp then
                            bnd (print_add ''Max EIRP: '' eirp) (\<lambda>_.
                            bnd (lift (str_add ''Operation Frequency Range: '' low)) (\<lambda>t.
                            print_add3 (t @ '' - '') high '' Hz''))
                          else ret ())) (\<lambda>_.
       ret lh')))))
     else ret lh)"

definition handleGrantResponse_body :: "nat \<Rightarrow> locals \<Rightarrow> json \<Rightarrow> locals m" where
  "handleGrantResponse_body iter lh grantResponse =
     bnd (print (''Grant Response ['' @ str_nat (iter + 1) @ '']:'')) (\<lambda>_.
     bnd (lift (grabPossibleEntry grantResponse (Some ''response''))) (\<lambda>response.
     bnd (isValidResponse response) (\<lambda>valid.
     if \<not> valid then
       bnd (suggested_operationParam lh grantResponse) (\<lambda>lh'.
       bnd (print ''Grant invalid.'') (\<lambda>_. ret lh'))
     else
       bnd (lift (grabPossibleEntry grantResponse (Some ''channelType''))) (\<lambda>channelType'.
       if \<not> truthy channelType' then
         bnd (print ''No channelType provided. Grant invalid.'') (\<lambda>_. ret lh)
       else
         bnd (lift (grabPossibleEntry grantResponse (Some ''grantId''))) (\<lambda>grantId'.
         if \<not> truthy grantId' then
           bnd (print ''No grantId provided. Grant invalid'') (\<lambda>_. ret lh)
         else
           bnd (lift (grabPossibleEntry grantResponse (Some ''grantExpireTime'')))
             (\<lambda>grantExpireTime'.
           if \<not> truthy grantExpireTime' then
             bnd (print ''No grantExpireTime provided. Grant invalid.'') (\<lambda>_. ret lh)
           else
             bnd (lift (grabPossibleEntry grantResponse (Some ''heartbeatInterval'')))
               (\<lambda>heartbeatInterval'.
             if \<not> truthy heartbeatInterval' then
               bnd (print ''No heartbeatInterval provided. Grant invalid.'') (\<lambda>_. ret lh)
             else
               bnd (lift (grabPossibleEntry grantResponse (Some ''cbsdId''))) (\<lambda>cbsdId'.
               if truthy cbsdId' then
                 bnd (findTempNodeByCbsdId cbsdId') (\<lambda>found.
                 case found of
                   None \<Rightarrow>
                     bnd (print_add3 (''No Node awaiting a response has the cbsdId '' @ apos)
                            cbsdId' (apos @ ''. Grant invalid.'')) (\<lambda>_. ret lh)
                 | Some r \<Rightarrow>
                     bnd (lift (grabPossibleEntry grantResponse (Some ''measReportConfig'')))
                       (\<lambda>mrc.
                     bnd (if truthy mrc
                          then setMeasReportConfig (NodeRef r) (wrap_list mrc) else ret ())
                       (\<lambda>_.
                     bnd (update_grant r (\<lambda>g. g\<lparr>grantId := grantId', grantStatus := GRANTED,
                            grantExpireTime := grantExpireTime',
                            heartbeatInterval := heartbeatInterval',
                            channelType := channelType'\<rparr>)) (\<lambda>_. ret lh))))
               else
                 bnd (print ''SAS Error: No cbsdId provided. Grant invalid.'')
                   (\<lambda>_. ret lh)))))))))"

definition handleGrantResponse :: "json \<Rightarrow> unit m" where
  "handleGrantResponse jsonData =
     bnd (lift (grabPossibleEntry jsonData (Some ''grantResponse''))) (\<lambda>grantResponses.
     if \<not> truthy grantResponses then
       print ''Unreadable data. Expecting JSON formatted payload. Grant(s) invalid.''
     else
       bnd (print ''Grant Response Received'') (\<lambda>_.
       bnd (lift (py_iter grantResponses)) (\<lambda>rs.
       bnd (for_each handleGrantResponse_body 0 (None, None) rs) (\<lambda>_. ret ()))))"

section \<open>Heartbeat and its timers\<close>

text \<open>
  \<open>threading.Timer(interval, function).start()\<close> creates a timer, starts it, and returns
  \<open>None\<close>, as \<open>Thread.start\<close> does. \<open>cancel()\<close> stops a timer that has not fired yet and
  does nothing to one that has. When the interval of a timer that was not cancelled has
  passed, its thread calls the function with no argument (\<open>fire\<close>): \<open>node_stop\<close> belongs to
  the radio layer and is counted here; \<open>heartbeatRequest\<close> has the required parameter
  \<open>clientio\<close>, so calling it with no argument raises \<open>TypeError\<close> before its body runs.
\<close>

definition Timer_start :: "rat \<Rightarrow> callback \<Rightarrow> unit m" where
  "Timer_start d f s =
     (Inr (), s\<lparr>timers := timers s @
        [\<lparr>interval = d, target = f, cancelled = False, fired = False\<rparr>]\<rparr>)"

definition Timer_cancel :: "nat \<Rightarrow> unit m" where
  "Timer_cancel t s =
     (Inr (), s\<lparr>timers := (timers s)[t := (timers s ! t)\<lparr>cancelled := True\<rparr>]\<rparr>)"

definition fire :: "nat \<Rightarrow> unit m" where
  "fire t s =
     (if t < length (timers s) \<and> \<not> cancelled (timers s ! t) \<and> \<not> fired (timers s ! t) then
        (case target (timers s ! t) of
           node_stop \<Rightarrow>
             (Inr (), s\<lparr>timers := (timers s)[t := (timers s ! t)\<lparr>fired := True\<rparr>],
                        node_stop_calls := Suc (node_stop_calls s)\<rparr>)
         | heartbeatRequest_cb \<Rightarrow>
             (Inl TypeError, s\<lparr>timers := (timers s)[t := (timers s ! t)\<lparr>fired := True\<rparr>]\<rparr>))
      else (Inr (), s))"

definition emit :: "string \<Rightarrow> json \<Rightarrow> unit m" where
  "emit event payload s = (Inr (), s\<lparr>emitted := emitted s @ [(event, payload)]\<rparr>)"

text \<open>
  \<open>heartbeatRequest(clientio, payload)\<close>. In simulation mode it calls itself, with the same
  mode, without end: Python raises \<open>RecursionError\<close>. Otherwise the prompt loop ends either
  with \<open>exit\<close> (return) or with the array a prompt function built, which is sent; then the
  expiry timer of 240 seconds is started. The name \<open>node_stop\<close> is not defined in this module;
  whether one of its star imports binds it is a parameter (\<open>NameError\<close> if not). The module
  variable \<open>__heartbeatTimer\<close> is assigned what \<open>start()\<close> returned.
\<close>

datatype data_source = exit | built json

definition heartbeatRequest :: "bool \<Rightarrow> data_source \<Rightarrow> unit m" where
  "heartbeatRequest node_stop_bound src s =
     (if sim_mode s then (Inl RecursionError, s)
      else (case src of
              exit \<Rightarrow> (Inr (), s)
            | built arrOfRequest \<Rightarrow>
                bnd (emit ''heartbeatRequest'' (JObj [(''heartbeatRequest'', arrOfRequest)]))
                  (\<lambda>_.
                if node_stop_bound then
                  bnd (Timer_start 240 node_stop) (\<lambda>_.
                  (\<lambda>s'. (Inr (), s'\<lparr>heartbeatTimer := None\<rparr>)))
                else raise NameError) s))"

text \<open>
  \<open>float(x)\<close>: a number as it is, a string through Python's float syntax (a parameter
  here), anything else a \<open>TypeError\<close>. Arithmetic on the result is exact on rationals:
  the rounding of doubles is not modelled, nor the \<open>OverflowError\<close> of an integer beyond
  the range of a double.
\<close>

fun py_float :: "(string \<Rightarrow> rat option) \<Rightarrow> json \<Rightarrow> error + rat" where
  "py_float parse (JNum q) = Inr q"
| "py_float parse (JStr s) = (case parse s of Some q \<Rightarrow> Inr q | None \<Rightarrow> Inl ValueError)"
| "py_float parse _ = Inl TypeError"

definition handleHeartbeatResponse_body ::
    "(string \<Rightarrow> rat option) \<Rightarrow> nat \<Rightarrow> locals \<Rightarrow> json \<Rightarrow> locals m" where
  "handleHeartbeatResponse_body parse iter lh hbResponse =
     bnd (print (''Heartbeat Response ['' @ str_nat (iter + 1) @ '']:'')) (\<lambda>_.
     bnd (lift (grabPossibleEntry hbResponse (Some ''response''))) (\<lambda>response.
     bnd (isValidResponse response) (\<lambda>valid.
     if \<not> valid then
       bnd (suggested_operationParam lh hbResponse) (\<lambda>lh'.
       bnd (print ''Heartbeat invalid.'') (\<lambda>_. ret lh'))
     else
       bnd (lift (grabPossibleEntry hbResponse (Some ''cbsdId''))) (\<lambda>cbsdId'.
       if truthy cbsdId' then
         bnd (findTempNodeByCbsdId cbsdId') (\<lambda>found.
         case found of
           None \<Rightarrow>
             bnd (print_add3 (''No Node awaiting a response has the cbsdId '' @ apos)
                    cbsdId' (apos @ ''. Heartbeat invalid.'')) (\<lambda>_. ret lh)
         | Some r \<Rightarrow>
             bnd (lift (grabPossibleEntry hbResponse (Some ''grantId''))) (\<lambda>grantId'.
             if \<not> truthy grantId' then
               bnd (print ''No grantId provided. Heartbeat invalid'') (\<lambda>_. ret lh)
             else
               bnd (lift (grabPossibleEntry hbResponse (Some ''transmitExpireTime'')))
                 (\<lambda>transmitExpireTime'.
               if \<not> truthy transmitExpireTime' then
                 bnd (print ''No transmitExpireTime provided. Heartbeat invalid.'')
                   (\<lambda>_. ret lh)
               else
                 bnd (lift (grabPossibleEntry hbResponse (Some ''grantExpireTime'')))
                   (\<lambda>grantExpireTime'.
                 if \<not> truthy grantExpireTime' then
                   bnd (print ''No grantExpireTime provided. Heartbeat invalid.'')
                     (\<lambda>_. ret lh)
                 else
                   bnd (lift (grabPossibleEntry hbResponse (Some ''heartbeatInterval'')))
                     (\<lambda>heartbeatInterval'.
                   if \<not> truthy heartbeatInterval' then
                     bnd (print ''No heartbeatInterval provided. Heartbeat invalid.'')
                       (\<lambda>_. ret lh)
                   else
                     bnd (lift (grabPossibleEntry hbResponse (Some ''measReportConfig'')))
                       (\<lambda>mrc.
                     bnd (if truthy mrc
                          then setMeasReportConfig (NodeRef r) (wrap_list mrc) else ret ())
                       (\<lambda>_.
                     bnd (lift (py_float parse heartbeatInterval')) (\<lambda>f.
                     bnd (Timer_start (if f * (9 / 10) < 1 then 1 else f * (9 / 10))
                            heartbeatRequest_cb) (\<lambda>_. ret lh)))))))))
       else
         bnd (print ''No cbsdId provided. Heartbeat invalid.'') (\<lambda>_. ret lh)))))"

definition handleHeartbeatResponse :: "(string \<Rightarrow> rat option) \<Rightarrow> json \<Rightarrow> unit m" where
  "handleHeartbeatResponse parse jsonData =
     bnd (\<lambda>s. case heartbeatTimer s of
                 None \<Rightarrow> (Inl AttributeError, s)
               | Some t \<Rightarrow> Timer_cancel t s) (\<lambda>_.
     bnd (lift (grabPossibleEntry jsonData (Some ''heartbeatResponse''))) (\<lambda>hbResponses.
     if \<not> truthy hbResponses then
       print (''SAS Error: Unreadable data. Expecting JSON formatted payload. '' @
              ''Heartbeat(s) invalid.'')
     else
       bnd (print ''Heartbeat Response Received'') (\<lambda>_.
       bnd (lift (py_iter hbResponses)) (\<lambda>rs.
       bnd (for_each (handleHeartbeatResponse_body parse) 0 (None, None) rs)
         (\<lambda>_. ret ())))))"

section \<open>Relinquishment\<close>

text \<open>
  \<open>node.getGrantRequest()\<close> is taken to give the Node's Grant, and \<open>grant.__init__()\<close> to
  make it empty again, as the docstring of the handler says.
\<close>

definition handleRelinquishmentResponse_body :: "nat \<Rightarrow> unit \<Rightarrow> json \<Rightarrow> unit m" where
  "handleRelinquishmentResponse_body iter u relinquishment =
     bnd (print (''Relinquishment Response ['' @ str_nat (iter + 1) @ '']:'')) (\<lambda>_.
     bnd (lift (grabPossibleEntry relinquishment (Some ''response''))) (\<lambda>response.
     bnd (isValidResponse response) (\<lambda>valid.
     if \<not> valid then print ''Relinquishment invalid.''
     else
       bnd (lift (grabPossibleEntry relinquishment (Some ''cbsdId''))) (\<lambda>cbsdId'.
       if truthy cbsdId' then
         bnd (findTempNodeByCbsdId cbsdId') (\<lambda>found.
         case found of
           None \<Rightarrow>
             print_add3 (''No Node awaiting a response has the cbsdId '' @ apos)
               cbsdId' (apos @ ''. Relinquishment invalid.'')
         | Some r \<Rightarrow>
             bnd (lift (grabPossibleEntry relinquishment (Some ''grantId''))) (\<lambda>grantId'.
             if \<not> truthy grantId' then
               print ''No grantId provided. Relinquishment invalid''
             else update_grant r (\<lambda>g. empty_grant)))
       else print ''No cbsdId provided. Heartbeat invalid.''))))"

definition handleRelinquishmentResponse :: "json \<Rightarrow> unit m" where
  "handleRelinquishmentResponse jsonData =
     bnd (lift (grabPossibleEntry jsonData (Some ''relinquishmentResponse'')))
       (\<lambda>relinquishResponses.
     if \<not> truthy relinquishResponses then
       print ''Unreadable data. Expecting JSON formatted payload. Relinquishment(s) invalid.''
     else
       bnd (print ''Relinquishment Response Received'') (\<lambda>_.
       bnd (lift (py_iter relinquishResponses)) (\<lambda>rs.
       for_each handleRelinquishmentResponse_body 0 () rs)))"

section \<open>Spectrum inquiry and deregistration\<close>






section \<open>Notions used to state the properties\<close>

text \<open>
  The field of a response element as the handlers read it: the value under the key, or \<open>None\<close>
  when the key is missing.
\<close>

definition fld :: "json \<Rightarrow> string \<Rightarrow> json" where
  "fld e k = (case grabPossibleEntry e (Some k) of Inr v \<Rightarrow> v | Inl x \<Rightarrow> JNull)"

text \<open>The line that surfaces an optional string field of the envelope.\<close>

definition surfaced :: "string \<Rightarrow> json \<Rightarrow> printed list" where
  "surfaced label v =
     (case v of JStr t \<Rightarrow> (if t = [] then [] else [Line (label @ t)]) | _ \<Rightarrow> [])"

definition str_or_empty :: "json \<Rightarrow> bool" where
  "str_or_empty v = (case v of JStr t \<Rightarrow> True | _ \<Rightarrow> \<not> truthy v)"

definition printed_more :: "state \<Rightarrow> printed list \<Rightarrow> state" where
  "printed_more s ls = s\<lparr>stdout := stdout s @ ls\<rparr>"

text \<open>
  A statement is a writer when it only prints, and what it prints and returns is the same in
  every state.
\<close>

definition writer :: "'a m \<Rightarrow> bool" where
  "writer f = (\<exists>v ls. \<forall>s. f s = (v, printed_more s ls))"

text \<open>
  The statements of the loop body of \<open>handleRegistrationResponse\<close> that follow the call of
  \<open>getIpAddress\<close>, under a name, for the proofs.
\<close>

definition registration_tail :: "json \<Rightarrow> json \<Rightarrow> queue_entry \<Rightarrow> json \<Rightarrow> unit m" where
  "registration_tail response cbsdId' node a =
         bnd (lift (str_add (''Node with IP Address: '' @ apos) a)) (\<lambda>t.
         bnd (print_add3 (t @ apos @ '' is given CBSD ID# : '' @ apos) cbsdId' (apos @ ''.''))
           (\<lambda>_.
         bnd (lift (grabPossibleEntry response (Some ''measReportConfig''))) (\<lambda>mrc.
         if truthy mrc then
           bnd (print_add ''Measurment Report Configuration(s) Assigned: '' (wrap_list mrc))
             (\<lambda>_. setMeasReportConfig node (wrap_list mrc))
         else ret ())))"

text \<open>
  The Node to which the element at index \<open>i\<close> of a registration response gives its
  \<open>cbsdId\<close>, if any.
\<close>

definition assigned :: "nat \<Rightarrow> json \<Rightarrow> state \<Rightarrow> nat option" where
  "assigned i e s =
     (if fst (isValidResponse (fld e ''response'') s) = Inr True \<and> truthy (fld e ''cbsdId'')
         \<and> i < length (tempNodeList s)
      then (case tempNodeList s ! i of NodeRef r \<Rightarrow> Some r | SerialNumber x \<Rightarrow> None)
      else None)"

text \<open>The Node at a place of the queue is the one whose serial number the request carries.\<close>

definition sent_for :: "(nat \<Rightarrow> node) \<Rightarrow> queue_entry \<Rightarrow> json \<Rightarrow> bool" where
  "sent_for h entry req =
     (case entry of NodeRef r \<Rightarrow> fld req ''cbsdSerialNumber'' = serialNumber (h r)
      | SerialNumber x \<Rightarrow> False)"

text \<open>The decoded message that carries a batch of response elements.\<close>

definition registration_batch :: "json list \<Rightarrow> json" where
  "registration_batch rs = JObj [(''registrationResponse'', JArr rs)]"


definition heartbeat_batch :: "json list \<Rightarrow> json" where
  "heartbeat_batch rs = JObj [(''heartbeatResponse'', JArr rs)]"

definition relinquishment_batch :: "json list \<Rightarrow> json" where
  "relinquishment_batch rs = JObj [(''relinquishmentResponse'', JArr rs)]"

subsection \<open>Example messages\<close>

definition registration_requests :: json where
  "registration_requests =
     JArr [JObj [(''nodeIp'', JStr ''10.0.0.1''), (''userId'', JStr ''U1''),
                 (''fccId'', JStr ''F1'')]]"

definition two_requests :: json where
  "two_requests =
     JArr [JObj [(''nodeIp'', JStr ''10.0.0.1''), (''userId'', JStr ''U1''),
                 (''fccId'', JStr ''F1'')],
           JObj [(''nodeIp'', JStr ''10.0.0.2''), (''userId'', JStr ''U2''),
                 (''fccId'', JStr ''F2'')]]"

definition requests_without_userId :: json where
  "requests_without_userId =
     JArr [JObj [(''nodeIp'', JStr ''10.0.0.1''), (''fccId'', JStr ''F1'')],
           JObj [(''nodeIp'', JStr ''10.0.0.2''), (''userId'', JStr ''U2''),
                 (''fccId'', JStr ''F2'')]]"

definition grant_requests :: json where
  "grant_requests =
     JArr [JObj [(''nodeIp'', JStr ''10.0.0.2''),
                 (''operationParam'', JObj [(''maxEirp'', JStr ''30'')])]]"

definition approved_registration :: json where
  "approved_registration =
     JObj [(''response'', JObj [(''responseCode'', JStr ''0'')]), (''cbsdId'', JStr ''CBSD-1'')]"

definition second_registration :: json where
  "second_registration =
     JObj [(''response'', JObj [(''responseCode'', JStr ''0'')]), (''cbsdId'', JStr ''CBSD-9'')]"

definition refused_registration :: json where
  "refused_registration =
     JObj [(''response'', JObj [(''responseCode'', JStr ''102''),
                                (''responseData'', JArr [JStr ''fccId''])])]"

definition approved_grant :: json where
  "approved_grant = JObj [(''cbsdId'', JStr ''CBSD-2''),
     (''response'', JObj [(''responseCode'', JStr ''0'')]),
     (''grantId'', JStr ''G1''), (''channelType'', JStr ''GAA''),
     (''grantExpireTime'', JStr ''2021-02-13T12:00:00Z''), (''heartbeatInterval'', JStr ''10'')]"


definition rejected_grant :: json where
  "rejected_grant = JObj [(''cbsdId'', JStr ''CBSD-2''),
     (''response'', JObj [(''responseCode'', JStr ''400''),
                          (''responseMessage'', JStr ''INTERFERENCE'')]),
     (''grantId'', JStr ''G1''), (''channelType'', JStr ''GAA''),
     (''grantExpireTime'', JStr ''2021-02-13T12:00:00Z''), (''heartbeatInterval'', JStr ''10'')]"


definition successful_heartbeat :: json where
  "successful_heartbeat = JObj [(''cbsdId'', JStr ''CBSD-2''),
     (''response'', JObj [(''responseCode'', JStr ''0'')]),
     (''grantId'', JStr ''G1''), (''transmitExpireTime'', JStr ''2021-02-13T11:04:00Z''),
     (''grantExpireTime'', JStr ''2021-02-13T12:00:00Z''), (''heartbeatInterval'', JStr ''10'')]"

definition example_float :: "string \<Rightarrow> rat option" where
  "example_float t = (if t = ''10'' then Some 10 else None)"

definition successful_relinquishment :: json where
  "successful_relinquishment = JObj [(''cbsdId'', JStr ''CBSD-2''),
     (''response'', JObj [(''responseCode'', JStr ''0'')]), (''grantId'', JStr ''G1'')]"

subsection \<open>Example states\<close>

definition node1 :: node where
  "node1 = \<lparr> ipAddress = JStr ''10.0.0.1'', serialNumber = JStr ''S1'', cbsdId = JNull,
     measReportConfig = JNull, nodeGrant = empty_grant \<rparr>"

definition node2 :: node where
  "node2 = \<lparr> ipAddress = JStr ''10.0.0.2'', serialNumber = JStr ''S2'',
     cbsdId = JStr ''CBSD-2'', measReportConfig = JNull, nodeGrant = empty_grant \<rparr>"

text \<open>Two created Nodes, the second one registered; nothing sent yet.\<close>

definition idle_state :: state where
  "idle_state = \<lparr> heap = (\<lambda>r. if r = 1 then node2 else node1), created_nodes = [0, 1],
     tempNodeList = [], heartbeatTimer = None, sim_mode = True, timers = [], stdout = [],
     emitted = [], node_stop_calls = 0 \<rparr>"

text \<open>The registered Node awaits the answer to a request it has sent.\<close>

definition awaiting_state :: state where
  "awaiting_state = idle_state\<lparr>tempNodeList := [NodeRef 1]\<rparr>"

definition two_queued_state :: state where
  "two_queued_state = idle_state\<lparr>tempNodeList := [NodeRef 1, NodeRef 0]\<rparr>"

definition registering_state :: state where
  "registering_state = idle_state\<lparr>tempNodeList := [NodeRef 0]\<rparr>"

definition unserialled_state :: state where
  "unserialled_state =
     idle_state\<lparr>heap := (\<lambda>r. if r = 1 then node2 else node1\<lparr>serialNumber := JNull\<rparr>)\<rparr>"

definition interactive_state :: state where
  "interactive_state = awaiting_state\<lparr>sim_mode := False\<rparr>"

definition heartbeat_sent_state :: state where
  "heartbeat_sent_state = snd (heartbeatRequest True (built (JArr [JNull])) interactive_state)"

definition renewal_armed_state :: state where
  "renewal_armed_state =
     snd (handleHeartbeatResponse_body example_float 0 (None, None) successful_heartbeat
            awaiting_state)"

definition granted_state :: state where
  "granted_state =
     (snd (handleGrantResponse_body 0 (None, None) approved_grant awaiting_state))
       \<lparr>timers := [\<lparr>interval = 240, target = node_stop, cancelled = False, fired = False\<rparr>,
                   \<lparr>interval = 9, target = heartbeatRequest_cb, cancelled = False,
                      fired = False\<rparr>]\<rparr>"

definition after_registration_request :: state where
  "after_registration_request = snd (simRegistrationReq registration_requests idle_state)"

definition after_grant_request :: state where
  "after_grant_request = snd (simGrantReq grant_requests after_registration_request)"

definition after_late_response :: state where
  "after_late_response =
     snd (handleRegistrationResponse (registration_batch [approved_registration])
            after_grant_request)"

section \<open>Verified properties\<close>

subsection \<open>Laws of the statement combinators\<close>

lemma bnd_ret [simp]: "bnd (ret x) g = g x"
  by (rule ext) (simp add: bnd_def ret_def)

lemma bnd_raise [simp]: "bnd (raise e) g = raise e"
  by (rule ext) (simp add: bnd_def raise_def)

lemma bnd_lift_Inr [simp]: "bnd (lift (Inr x)) g = g x"
  by (rule ext) (simp add: bnd_def lift_def)

lemma bnd_lift_Inl [simp]: "bnd (lift (Inl e)) g = raise e"
  by (rule ext) (simp add: bnd_def lift_def raise_def)

lemma print_printed_more: "print l s = (Inr (), printed_more s [Line l])"
  by (simp add: print_def printed_more_def)

lemma bnd_print [simp]: "bnd (print l) g s = g () (printed_more s [Line l])"
  by (simp add: bnd_def print_printed_more)

lemma bnd_Inl:
  "(\<And>t. f t = (Inl err, printed_more t ls)) \<Longrightarrow> bnd f g s = (Inl err, printed_more s ls)"
  by (simp add: bnd_def)

lemma bnd_Inr:
  "(\<And>t. f t = (Inr x, printed_more t ls)) \<Longrightarrow> bnd f g s = g x (printed_more s ls)"
  by (simp add: bnd_def)

lemma printed_more_twice [simp]:
  "printed_more (printed_more s ls) ls' = printed_more s (ls @ ls')"
  by (simp add: printed_more_def)

lemma printed_more_Nil [simp]: "printed_more s [] = s"
  by (simp add: printed_more_def)

lemma printed_more_fields [simp]:
  "heap (printed_more s ls) = heap s"
  "tempNodeList (printed_more s ls) = tempNodeList s"
  "created_nodes (printed_more s ls) = created_nodes s"
  "timers (printed_more s ls) = timers s"
  "heartbeatTimer (printed_more s ls) = heartbeatTimer s"
  "sim_mode (printed_more s ls) = sim_mode s"
  "emitted (printed_more s ls) = emitted s"
  "node_stop_calls (printed_more s ls) = node_stop_calls s"
  "stdout (printed_more s ls) = stdout s @ ls"
  by (simp_all add: printed_more_def)

text \<open>Statements that only print, and print and return the same in every state.\<close>

lemma writerI: "(\<And>s. f s = (v, printed_more s ls)) \<Longrightarrow> writer f"
  unfolding writer_def by blast

lemma writer_ret [intro!, simp]: "writer (ret x)"
  by (rule writerI [where ls = "[]"]) (simp add: ret_def)

lemma writer_raise [intro!, simp]: "writer (raise e)"
  by (rule writerI [where ls = "[]"]) (simp add: raise_def)

lemma writer_lift [intro!, simp]: "writer (lift r)"
  by (rule writerI [where ls = "[]"]) (simp add: lift_def)

lemma writer_print [intro!, simp]: "writer (print l)"
  by (rule writerI [where ls = "[Line l]"]) (simp add: print_printed_more)

lemma writer_bnd [intro!]:
  assumes "writer f" and "\<And>x. writer (g x)"
  shows "writer (bnd f g)"
proof -
  from assms(1) obtain v ls where f: "\<And>s. f s = (v, printed_more s ls)"
    unfolding writer_def by blast
  show ?thesis
  proof (cases v)
    case (Inl e)
    show ?thesis
      by (rule writerI [where v = "Inl e" and ls = ls]) (simp add: bnd_def f Inl)
  next
    case (Inr x)
    from assms(2) [of x] obtain w ks where g: "\<And>s. g x s = (w, printed_more s ks)"
      unfolding writer_def by blast
    show ?thesis
      by (rule writerI [where v = w and ls = "ls @ ks"]) (simp add: bnd_def f Inr g)
  qed
qed

lemma writer_print_add [intro!, simp]: "writer (print_add l x)"
  unfolding print_add_def by (intro writer_bnd writer_lift writer_print)

lemma writer_print_add3 [intro!, simp]: "writer (print_add3 l x r)"
  unfolding print_add3_def by (intro writer_bnd writer_lift writer_print)

lemma writer_if [intro!]:
  "(c \<Longrightarrow> writer f) \<Longrightarrow> (\<not> c \<Longrightarrow> writer g) \<Longrightarrow> writer (if c then f else g)"
  by simp

lemma writer_case_option [intro!]:
  "(x = None \<Longrightarrow> writer f) \<Longrightarrow> (\<And>y. x = Some y \<Longrightarrow> writer (g y)) \<Longrightarrow>
   writer (case x of None \<Rightarrow> f | Some y \<Rightarrow> g y)"
  by (cases x) simp_all

lemma writer_heap: "writer f \<Longrightarrow> heap (snd (f s)) = heap s"
  unfolding writer_def by auto

lemma print_add_JStr [simp]: "print_add l (JStr t) = print (l @ t)"
  by (rule ext) (simp add: print_add_def)

lemma print_add3_JStr [simp]: "print_add3 l (JStr t) r = print (l @ t @ r)"
  by (rule ext) (simp add: print_add3_def)

lemma truthy_fld_dict: "truthy (fld e k) \<Longrightarrow> \<exists>kvs. e = JObj kvs"
  by (cases e) (simp_all add: fld_def)

lemma grab_fld: "grabPossibleEntry (JObj kvs) (Some k) = Inr (fld (JObj kvs) k)"
  by (simp add: fld_def split: option.splits)

lemma grab_non_dict:
  "\<not> (\<exists>kvs. e = JObj kvs) \<Longrightarrow> grabPossibleEntry e k = Inl TypeError"
  by (cases e) simp_all

subsection \<open>The validity check of a response envelope\<close>

lemma isValidResponse_absent:
  "\<not> truthy response \<Longrightarrow>
   isValidResponse response s =
     (Inr False, printed_more s [Line ''SAS Error: No reponse object found.''])"
  by (simp add: isValidResponse_def printed_more_def ret_def)

lemma isValidResponse_no_code:
  "kvs \<noteq> [] \<Longrightarrow> \<not> truthy (fld (JObj kvs) ''responseCode'') \<Longrightarrow>
   isValidResponse (JObj kvs) s =
     (Inr False, printed_more s [Line ''SAS Error: No response code provided.''])"
  by (simp add: isValidResponse_def printed_more_def ret_def grab_fld
        del: grabPossibleEntry.simps)

lemma isValidResponse_code:
  assumes "fld response ''responseCode'' = JStr c" and "c \<noteq> []"
    and "str_or_empty (fld response ''responseMessage'')"
    and "str_or_empty (fld response ''responseData'')"
  shows "isValidResponse response s =
     (Inr (c = ''0''), printed_more s
        ([Line (''Response Code: '' @ c)]
         @ surfaced ''Response Message: '' (fld response ''responseMessage'')
         @ surfaced ''Response Data: '' (fld response ''responseData'')
         @ (if c = ''0'' then []
            else [Line ''SAS Error: Registration Unsuccessful (non-zero response code).''])))"
proof -
  from assms(1,2) have "truthy (fld response ''responseCode'')" by simp
  then obtain kvs where r: "response = JObj kvs" using truthy_fld_dict by blast
  with assms(1) have ne: "kvs \<noteq> []" by (auto simp: fld_def)
  show ?thesis
    using assms ne unfolding r
    by (cases "fld (JObj kvs) ''responseMessage''"; cases "fld (JObj kvs) ''responseData''")
       (simp_all add: isValidResponse_def printed_more_def ret_def grab_fld surfaced_def
          str_or_empty_def del: grabPossibleEntry.simps)
qed

text \<open>
  Claim C7, as the code has it. The check returns failure, with its own diagnostic, when the
  envelope is absent or empty and when \<open>responseCode\<close> is absent or empty. For a string
  \<open>responseCode\<close> it prints the code, then \<open>responseMessage\<close> and \<open>responseData\<close> when they
  are non-empty strings, and returns success exactly when the code is the string \<open>0\<close>. The
  result depends on the code only through the comparison with \<open>0\<close>: a code that is no number
  gets the diagnostic of any other non-zero code, and no condition of its own.
\<close>

theorem isValidResponse_outcomes:
  "(\<not> truthy absent \<longrightarrow>
      isValidResponse absent s =
        (Inr False, printed_more s [Line ''SAS Error: No reponse object found.'']))
   \<and> (kvs \<noteq> [] \<and> \<not> truthy (fld (JObj kvs) ''responseCode'') \<longrightarrow>
      isValidResponse (JObj kvs) s =
        (Inr False, printed_more s [Line ''SAS Error: No response code provided.'']))
   \<and> (fld response ''responseCode'' = JStr c \<and> c \<noteq> []
      \<and> str_or_empty (fld response ''responseMessage'')
      \<and> str_or_empty (fld response ''responseData'') \<longrightarrow>
      isValidResponse response s =
        (Inr (c = ''0''), printed_more s
           ([Line (''Response Code: '' @ c)]
            @ surfaced ''Response Message: '' (fld response ''responseMessage'')
            @ surfaced ''Response Data: '' (fld response ''responseData'')
            @ (if c = ''0'' then []
               else [Line
                 ''SAS Error: Registration Unsuccessful (non-zero response code).'']))))"
  using isValidResponse_absent isValidResponse_no_code isValidResponse_code by blast

theorem isValidResponse_outcomes_witness:
  "isValidResponse JNull idle_state =
     (Inr False, printed_more idle_state [Line ''SAS Error: No reponse object found.''])
   \<and> isValidResponse (JObj [(''responseMessage'', JStr ''late'')]) idle_state =
     (Inr False, printed_more idle_state [Line ''SAS Error: No response code provided.''])
   \<and> isValidResponse (JObj [(''responseCode'', JStr ''103''),
                             (''responseMessage'', JStr ''INVALID_VALUE''),
                             (''responseData'', JStr ''fccId'')]) idle_state =
     (Inr False, printed_more idle_state
        [Line ''Response Code: 103'', Line ''Response Message: INVALID_VALUE'',
         Line ''Response Data: fccId'',
         Line ''SAS Error: Registration Unsuccessful (non-zero response code).''])"
  using isValidResponse_outcomes [where absent = JNull and s = idle_state
      and kvs = "[(''responseMessage'', JStr ''late'')]"
      and response = "JObj [(''responseCode'', JStr ''103''),
                            (''responseMessage'', JStr ''INVALID_VALUE''),
                            (''responseData'', JStr ''fccId'')]"
      and c = "''103''"]
  by (simp add: fld_def surfaced_def str_or_empty_def)

text \<open>
  The claim as stated fails: the code \<open>abc\<close>, which is no number, is answered with the line
  of a non-zero code, the same line the code \<open>7\<close> gets, and with the same result.
\<close>

theorem isValidResponse_non_numeric_counterexample:
  "isValidResponse (JObj [(''responseCode'', JStr ''abc'')]) idle_state =
     (Inr False, printed_more idle_state
        [Line ''Response Code: abc'',
         Line ''SAS Error: Registration Unsuccessful (non-zero response code).''])
   \<and> isValidResponse (JObj [(''responseCode'', JStr ''7'')]) idle_state =
     (Inr False, printed_more idle_state
        [Line ''Response Code: 7'',
         Line ''SAS Error: Registration Unsuccessful (non-zero response code).''])"
  by (simp add: isValidResponse_def printed_more_def ret_def)

lemma writer_isValidResponse [intro!, simp]: "writer (isValidResponse response)"
  unfolding isValidResponse_def
  by (intro writer_bnd writer_if writer_lift writer_print writer_print_add writer_ret)

lemma writer_suggested_operationParam [intro!, simp]:
  "writer (suggested_operationParam lh e)"
  unfolding suggested_operationParam_def
  by (intro writer_bnd writer_if writer_case_option writer_lift writer_print
        writer_print_add writer_print_add3 writer_ret writer_raise)

lemma isValidResponse_True_code:
  assumes "fst (isValidResponse response s) = Inr True"
  shows "fld response ''responseCode'' = JStr ''0''"
proof (cases "truthy response")
  case False
  then show ?thesis using assms by (simp add: isValidResponse_absent)
next
  case True
  show ?thesis
  proof (cases response)
    case (JObj kvs)
    show ?thesis
      using assms True unfolding JObj
      by (auto simp add: isValidResponse_def grab_fld bnd_def ret_def print_def print_add_def
            lift_def simp del: grabPossibleEntry.simps bnd_print
            split: if_splits sum.splits prod.splits)
  qed (use assms True in \<open>simp_all add: isValidResponse_def raise_def\<close>)
qed

lemma isValidResponse_True_ex:
  assumes "fst (isValidResponse response s) = Inr True"
  shows "\<exists>ls. \<forall>t. isValidResponse response t = (Inr True, printed_more t ls)"
proof -
  obtain v ls where v: "\<And>t. isValidResponse response t = (v, printed_more t ls)"
    using writer_isValidResponse [of response] unfolding writer_def by blast
  with assms have "v = Inr True" by simp
  with v show ?thesis by blast
qed

lemma isValidResponse_True_truthy:
  "fst (isValidResponse response s) = Inr True \<Longrightarrow> truthy response"
  using isValidResponse_absent [of response s] by (cases "truthy response") auto

subsection \<open>Elements whose envelope does not report success\<close>

lemma rejected_cases:
  assumes "fld (fld e ''response'') ''responseCode'' \<noteq> JStr ''0''"
  obtains (not_dict) "grabPossibleEntry e (Some ''response'') = Inl TypeError"
  | (raised) err ls where "grabPossibleEntry e (Some ''response'') = Inr (fld e ''response'')"
      and "\<And>t. isValidResponse (fld e ''response'') t = (Inl err, printed_more t ls)"
  | (invalid) ls where "grabPossibleEntry e (Some ''response'') = Inr (fld e ''response'')"
      and "\<And>t. isValidResponse (fld e ''response'') t = (Inr False, printed_more t ls)"
proof (cases "\<exists>kvs. e = JObj kvs")
  case False
  then show ?thesis using not_dict grab_non_dict by blast
next
  case True
  then have g: "grabPossibleEntry e (Some ''response'') = Inr (fld e ''response'')"
    using grab_fld by auto
  obtain v ls where v: "\<And>t. isValidResponse (fld e ''response'') t = (v, printed_more t ls)"
    using writer_isValidResponse [of "fld e ''response''"] unfolding writer_def by blast
  have "v \<noteq> Inr True"
    using assms isValidResponse_True_code [of "fld e ''response''"] v by fastforce
  then show ?thesis
    using g v raised invalid by (cases v) auto
qed

lemma handleGrantResponse_body_rejected:
  assumes "fld (fld e ''response'') ''responseCode'' \<noteq> JStr ''0''"
  shows "heap (snd (handleGrantResponse_body i lh e s)) = heap s"
  using assms
proof (cases rule: rejected_cases)
  case not_dict
  then show ?thesis by (simp add: handleGrantResponse_body_def raise_def)
next
  case (raised err ls)
  then show ?thesis by (simp add: handleGrantResponse_body_def bnd_Inl [OF raised(2)])
next
  case (invalid ls)
  have w: "writer (bnd (suggested_operationParam lh e)
      (\<lambda>lh'. bnd (print ''Grant invalid.'') (\<lambda>_. ret lh')))"
    by (intro writer_bnd writer_suggested_operationParam writer_print writer_ret)
  from invalid show ?thesis
    by (simp add: handleGrantResponse_body_def bnd_Inr [OF invalid(2)] writer_heap [OF w])
qed

lemma handleHeartbeatResponse_body_rejected:
  assumes "fld (fld e ''response'') ''responseCode'' \<noteq> JStr ''0''"
  shows "heap (snd (handleHeartbeatResponse_body parse i lh e s)) = heap s"
  using assms
proof (cases rule: rejected_cases)
  case not_dict
  then show ?thesis by (simp add: handleHeartbeatResponse_body_def raise_def)
next
  case (raised err ls)
  then show ?thesis by (simp add: handleHeartbeatResponse_body_def bnd_Inl [OF raised(2)])
next
  case (invalid ls)
  have w: "writer (bnd (suggested_operationParam lh e)
      (\<lambda>lh'. bnd (print ''Heartbeat invalid.'') (\<lambda>_. ret lh')))"
    by (intro writer_bnd writer_suggested_operationParam writer_print writer_ret)
  from invalid show ?thesis
    by (simp add: handleHeartbeatResponse_body_def bnd_Inr [OF invalid(2)] writer_heap [OF w])
qed

lemma handleRelinquishmentResponse_body_rejected:
  assumes "fld (fld e ''response'') ''responseCode'' \<noteq> JStr ''0''"
  shows "heap (snd (handleRelinquishmentResponse_body i u e s)) = heap s"
  using assms
proof (cases rule: rejected_cases)
  case not_dict
  then show ?thesis by (simp add: handleRelinquishmentResponse_body_def raise_def)
next
  case (raised err ls)
  then show ?thesis
    by (simp add: handleRelinquishmentResponse_body_def bnd_Inl [OF raised(2)])
next
  case (invalid ls)
  then show ?thesis
    by (simp add: handleRelinquishmentResponse_body_def bnd_Inr [OF invalid(2)]
          print_printed_more)
qed

text \<open>
  Claim C2. Take any element of a grant, heartbeat or relinquishment response batch, at any
  position, in any state. If its response envelope is missing, or the \<open>responseCode\<close> of
  the envelope is missing, or the \<open>responseCode\<close> is not the string \<open>0\<close>, then after the element
  is processed every Node is as it was before: its Grant status and all its other Grant
  fields are unchanged, whether the element was skipped or an exception ended the batch.
\<close>

theorem rejected_element_keeps_grants:
  assumes "fld e ''response'' = JNull
    \<or> fld (fld e ''response'') ''responseCode'' = JNull
    \<or> fld (fld e ''response'') ''responseCode'' \<noteq> JStr ''0''"
  shows "heap (snd (handleGrantResponse_body i lh e s)) = heap s
    \<and> heap (snd (handleHeartbeatResponse_body parse i lh e s)) = heap s
    \<and> heap (snd (handleRelinquishmentResponse_body i u e s)) = heap s"
proof -
  from assms have "fld (fld e ''response'') ''responseCode'' \<noteq> JStr ''0''"
    by (auto simp: fld_def)
  then show ?thesis
    by (simp add: handleGrantResponse_body_rejected handleHeartbeatResponse_body_rejected
          handleRelinquishmentResponse_body_rejected)
qed

theorem rejected_element_keeps_grants_witness:
  "fld (fld rejected_grant ''response'') ''responseCode'' \<noteq> JStr ''0''
   \<and> heap (snd (handleGrantResponse_body 0 (None, None) rejected_grant awaiting_state)) =
       heap awaiting_state
   \<and> heap (snd (handleHeartbeatResponse_body (\<lambda>t. None) 0 (None, None) rejected_grant
        awaiting_state)) = heap awaiting_state
   \<and> heap (snd (handleRelinquishmentResponse_body 0 () rejected_grant awaiting_state)) =
       heap awaiting_state"
proof -
  have h: "fld (fld rejected_grant ''response'') ''responseCode'' \<noteq> JStr ''0''"
    by (simp add: fld_def rejected_grant_def)
  then have "fld rejected_grant ''response'' = JNull
    \<or> fld (fld rejected_grant ''response'') ''responseCode'' = JNull
    \<or> fld (fld rejected_grant ''response'') ''responseCode'' \<noteq> JStr ''0''"
    by simp
  from rejected_element_keeps_grants [OF this] h show ?thesis by blast
qed

subsection \<open>Grant responses that report success\<close>

lemma bnd_findTempNodeByCbsdId [simp]:
  "bnd (findTempNodeByCbsdId c) g s =
     (case findTempNodeByCbsdId_in (heap s) (tempNodeList s) c of
        Inl err \<Rightarrow> (Inl err, s) | Inr x \<Rightarrow> g x s)"
  by (simp add: bnd_def findTempNodeByCbsdId_def split: sum.splits)





subsection \<open>Registration responses and the correlation queue\<close>

lemma writer_snd: "writer f \<Longrightarrow> \<exists>ls. snd (f s) = printed_more s ls"
  unfolding writer_def by auto

lemma print_add_wrap_list [simp]: "print_add l (wrap_list v) = raise TypeError"
  by (cases v) (simp_all add: wrap_list_def print_add_def)

lemma bnd_state [simp]: "bnd (\<lambda>s. (Inr (f s), h s)) g s = g (f s) (h s)"
  by (simp add: bnd_def)

lemma writer_registration_tail: "writer (registration_tail response c node a)"
  unfolding registration_tail_def print_add_wrap_list bnd_raise
  by (intro writer_bnd writer_if writer_lift writer_print_add3 writer_ret writer_raise)

lemma handleRegistrationResponse_body_tail:
  "handleRegistrationResponse_body iter u regResponse =
     bnd (print (''Registration Response ['' @ str_nat (iter + 1) @ '']:'')) (\<lambda>_.
     bnd (lift (grabPossibleEntry regResponse (Some ''response''))) (\<lambda>response.
     bnd (isValidResponse response) (\<lambda>valid.
     if \<not> valid then print ''Registration invalid.''
     else
       bnd (lift (grabPossibleEntry regResponse (Some ''cbsdId''))) (\<lambda>cbsdId'.
       if truthy cbsdId' then
         bnd (\<lambda>s. if iter < length (tempNodeList s)
                   then (Inr (tempNodeList s ! iter), s) else (Inl IndexError, s)) (\<lambda>node.
         bnd (setCbsdId node cbsdId') (\<lambda>_.
         bnd (getIpAddress node) (registration_tail response cbsdId' node)))
       else print ''SAS Error: No cbsdId provided. Registration invalid.''))))"
  unfolding handleRegistrationResponse_body_def registration_tail_def ..

lemma bnd_index [simp]:
  "bnd (\<lambda>s. if i < length (tempNodeList s) then (Inr (tempNodeList s ! i), s)
            else (Inl IndexError, s)) g s =
     (if i < length (tempNodeList s) then g (tempNodeList s ! i) s else (Inl IndexError, s))"
  by (simp add: bnd_def)

lemma handleRegistrationResponse_body_effect:
  "tempNodeList (snd (handleRegistrationResponse_body i u e s)) = tempNodeList s
   \<and> heap (snd (handleRegistrationResponse_body i u e s)) =
      (case assigned i e s of
         None \<Rightarrow> heap s
       | Some r \<Rightarrow> (heap s)(r := (heap s r)\<lparr>cbsdId := fld e ''cbsdId''\<rparr>))"
proof (cases "\<exists>kvs. e = JObj kvs")
  case False
  then have "grabPossibleEntry e (Some ''response'') = Inl TypeError"
    by (rule grab_non_dict)
  moreover from False have "fld e ''response'' = JNull"
    by (cases e) (simp_all add: fld_def)
  ultimately show ?thesis
    by (simp add: handleRegistrationResponse_body_tail raise_def assigned_def isValidResponse_absent)
next
  case True
  then obtain kvs where e: "e = JObj kvs" by blast
  obtain v ls where v: "\<And>t. isValidResponse (fld e ''response'') t = (v, printed_more t ls)"
    using writer_isValidResponse [of "fld e ''response''"] unfolding writer_def by blast
  show ?thesis
  proof (cases v)
    case (Inl err)
    with v show ?thesis
      by (simp add: e handleRegistrationResponse_body_tail grab_fld bnd_Inl [OF v [unfolded Inl e]]
            assigned_def del: grabPossibleEntry.simps)
  next
    case (Inr b)
    note v' = v [unfolded Inr e]
    show ?thesis
    proof (cases b)
      case False
      with v Inr show ?thesis
        by (simp add: e handleRegistrationResponse_body_tail grab_fld bnd_Inr [OF v']
            print_printed_more assigned_def del: grabPossibleEntry.simps)
    next
      case True
      have tail: "tempNodeList (snd (registration_tail response c node a t)) = tempNodeList t
          \<and> heap (snd (registration_tail response c node a t)) = heap t" for response c node a t
        using writer_snd [OF writer_registration_tail, of response c node a t] by auto
      from True v Inr show ?thesis
        by (cases "tempNodeList s ! i")
          (simp_all add: e handleRegistrationResponse_body_tail grab_fld bnd_Inr [OF v']
            print_printed_more assigned_def tail raise_def del: grabPossibleEntry.simps)
    qed
  qed
qed

lemma fst_bnd: "fst (bnd f g s) = (case fst (f s) of Inl e \<Rightarrow> Inl e | Inr x \<Rightarrow> fst (g x (snd (f s))))"
  by (simp add: bnd_def split: prod.splits sum.splits)

lemma snd_bnd: "snd (bnd f g s) = (case fst (f s) of Inl e \<Rightarrow> snd (f s) | Inr x \<Rightarrow> snd (g x (snd (f s))))"
  by (simp add: bnd_def split: prod.splits sum.splits)

lemma bnd_Inr_eq: "fst (f s) = Inr x \<Longrightarrow> bnd f g s = g x (snd (f s))"
  by (cases "f s") (simp add: bnd_def)

lemma bnd_Inl_eq: "fst (f s) = Inl e \<Longrightarrow> bnd f g s = (Inl e, snd (f s))"
  by (cases "f s") (simp add: bnd_def)

lemma for_each_append:
  "for_each body i l (xs @ ys) =
     bnd (for_each body i l xs) (\<lambda>l'. for_each body (i + length xs) l' ys)"
proof (induction xs arbitrary: i l)
  case Nil
  then show ?case by simp
next
  case (Cons x xs)
  show ?case
    by (rule ext) (simp add: Cons.IH bnd_def split: prod.splits sum.splits)
qed

lemma registration_loop_tempNodeList:
  "tempNodeList (snd (for_each handleRegistrationResponse_body i u xs s)) = tempNodeList s"
proof (induction xs arbitrary: i u s)
  case Nil
  then show ?case by (simp add: ret_def)
next
  case (Cons x xs)
  then show ?case
    by (simp add: snd_bnd handleRegistrationResponse_body_effect split: sum.splits)
qed

lemma assigned_Some:
  "assigned i e s = Some r \<Longrightarrow> i < length (tempNodeList s) \<and> tempNodeList s ! i = NodeRef r"
  by (auto simp: assigned_def split: if_splits queue_entry.splits)

lemma registration_loop_heap:
  assumes "heap (snd (for_each handleRegistrationResponse_body i u xs s)) r \<noteq> heap s r"
  shows "\<exists>j<length xs. i + j < length (tempNodeList s) \<and> tempNodeList s ! (i + j) = NodeRef r
      \<and> heap (snd (for_each handleRegistrationResponse_body i u xs s)) r =
          (heap s r)\<lparr>cbsdId := fld (xs ! j) ''cbsdId''\<rparr>"
  using assms
proof (induction xs arbitrary: i u s)
  case Nil
  then show ?case by (simp add: ret_def)
next
  case (Cons x xs)
  let ?s1 = "snd (handleRegistrationResponse_body i u x s)"
  let ?s2 = "snd (for_each handleRegistrationResponse_body i u (x # xs) s)"
  have q1: "tempNodeList ?s1 = tempNodeList s"
    and h1: "heap ?s1 = (case assigned i x s of None \<Rightarrow> heap s
       | Some r \<Rightarrow> (heap s)(r := (heap s r)\<lparr>cbsdId := fld x ''cbsdId''\<rparr>))"
    using handleRegistrationResponse_body_effect [of i u x s] by auto
  have first: "heap ?s1 r \<noteq> heap s r \<Longrightarrow>
      i < length (tempNodeList s) \<and> tempNodeList s ! i = NodeRef r
      \<and> heap ?s1 r = (heap s r)\<lparr>cbsdId := fld x ''cbsdId''\<rparr>"
    using h1 assigned_Some [of i x s] by (auto split: option.splits if_splits)
  have same_or: "heap ?s1 r = heap s r \<or> (\<exists>c. heap ?s1 r = (heap s r)\<lparr>cbsdId := c\<rparr>)"
    using h1 by (auto split: option.splits)
  show ?case
  proof (cases "fst (handleRegistrationResponse_body i u x s)")
    case (Inl err)
    then have "?s2 = ?s1" by (simp add: snd_bnd)
    with Cons.prems first show ?thesis by auto
  next
    case (Inr u')
    then have s2: "?s2 = snd (for_each handleRegistrationResponse_body (Suc i) u' xs ?s1)"
      by (simp add: snd_bnd)
    show ?thesis
    proof (cases "heap ?s2 r = heap ?s1 r")
      case True
      with Cons.prems first show ?thesis by auto
    next
      case False
      from Cons.IH [of "Suc i" u' ?s1] False s2 q1
      obtain j where j: "j < length xs" "Suc i + j < length (tempNodeList s)"
        "tempNodeList s ! (Suc i + j) = NodeRef r"
        "heap ?s2 r = (heap ?s1 r)\<lparr>cbsdId := fld (xs ! j) ''cbsdId''\<rparr>"
        by auto
      from j(4) same_or have "heap ?s2 r = (heap s r)\<lparr>cbsdId := fld (xs ! j) ''cbsdId''\<rparr>"
        by auto
      with j(1-3) show ?thesis
        by (intro exI [of _ "Suc j"]) simp
    qed
  qed
qed

lemma handleRegistrationResponse_batch:
  "rs \<noteq> [] \<Longrightarrow> handleRegistrationResponse (registration_batch rs) s =
     for_each handleRegistrationResponse_body 0 () rs
       (printed_more s [Line ''Registration Response Received''])"
  by (simp add: handleRegistrationResponse_def registration_batch_def)

lemma handleRegistrationResponse_body_IndexError:
  assumes ok: "fst (isValidResponse (fld e ''response'') s) = Inr True"
    and c: "truthy (fld e ''cbsdId'')" and i: "length (tempNodeList s) \<le> i"
  shows "\<exists>ls. handleRegistrationResponse_body i u e s = (Inl IndexError, printed_more s ls)"
proof -
  from ok have "truthy (fld e ''response'')" by (rule isValidResponse_True_truthy)
  then obtain kvs where e: "e = JObj kvs" using truthy_fld_dict by blast
  from isValidResponse_True_ex [OF ok]
  obtain ls where
    "\<forall>t. isValidResponse (fld e ''response'') t = (Inr True, printed_more t ls)" ..
  then have v: "\<And>t. isValidResponse (fld e ''response'') t = (Inr True, printed_more t ls)"
    by blast
  show ?thesis
    using c i unfolding e handleRegistrationResponse_body_tail
    by (simp add: grab_fld bnd_Inr [OF v [unfolded e]] del: grabPossibleEntry.simps) blast
qed

lemma isValidResponse_fst_indep:
  "fst (isValidResponse response s) = fst (isValidResponse response t)"
  using writer_isValidResponse [of response] unfolding writer_def by auto

text \<open>
  Claim C10, as the code has it. Take a registration response batch in which the elements
  before some element are all processed without an exception, and that element stands at an
  index at or beyond the length of \<open>tempNodeList\<close>, passes the validity check and carries a
  \<open>cbsdId\<close>. Then \<open>tempNodeList[iter]\<close> raises \<open>IndexError\<close> at that element, and the
  elements after it are not processed: the handler ends as it does on the batch cut after
  that element. (An exception raised by an earlier element ends the batch before.)
\<close>

theorem registration_excess_element:
  assumes pre: "fst (for_each handleRegistrationResponse_body 0 () pre
        (printed_more s [Line ''Registration Response Received''])) = Inr ()"
    and excess: "length (tempNodeList s) \<le> length pre"
    and ok: "fst (isValidResponse (fld e ''response'') s) = Inr True"
    and c: "truthy (fld e ''cbsdId'')"
  shows "fst (handleRegistrationResponse (registration_batch (pre @ e # post)) s) = Inl IndexError
    \<and> handleRegistrationResponse (registration_batch (pre @ e # post)) s =
        handleRegistrationResponse (registration_batch (pre @ [e])) s"
proof -
  let ?t = "printed_more s [Line ''Registration Response Received'']"
  let ?s1 = "snd (for_each handleRegistrationResponse_body 0 () pre ?t)"
  have q: "length (tempNodeList ?s1) \<le> length pre"
    using excess by (simp add: registration_loop_tempNodeList)
  have ok1: "fst (isValidResponse (fld e ''response'') ?s1) = Inr True"
    using ok isValidResponse_fst_indep by metis
  from handleRegistrationResponse_body_IndexError [OF ok1 c q]
  obtain ls where b: "handleRegistrationResponse_body (length pre) () e ?s1 =
      (Inl IndexError, printed_more ?s1 ls)" by blast
  have "for_each handleRegistrationResponse_body 0 () (pre @ e # rest) ?t =
      (Inl IndexError, printed_more ?s1 ls)" for rest
    by (simp add: for_each_append bnd_Inl_eq b
          bnd_Inr_eq [where f = "for_each handleRegistrationResponse_body 0 () pre"
            and s = ?t, OF pre])
  from this [of post] this [of "[]"] show ?thesis
    by (simp add: handleRegistrationResponse_batch)
qed

lemma run_first_element:
  "fst (for_each handleRegistrationResponse_body 0 () [approved_registration]
        (printed_more registering_state [Line ''Registration Response Received''])) = Inr ()"
  by code_simp

lemma run_second_valid:
  "fst (isValidResponse (fld second_registration ''response'') registering_state) = Inr True"
  by code_simp

theorem registration_excess_element_witness:
  "length (tempNodeList registering_state) \<le> length [approved_registration]
   \<and> truthy (fld second_registration ''cbsdId'')
   \<and> fst (handleRegistrationResponse (registration_batch
        ([approved_registration] @ second_registration # [approved_registration]))
        registering_state) = Inl IndexError
   \<and> handleRegistrationResponse (registration_batch
        ([approved_registration] @ second_registration # [approved_registration]))
        registering_state =
      handleRegistrationResponse (registration_batch
        ([approved_registration] @ [second_registration])) registering_state"
proof -
  have h: "length (tempNodeList registering_state) \<le> length [approved_registration]"
    "truthy (fld second_registration ''cbsdId'')"
    by (simp_all add: registering_state_def second_registration_def fld_def)
  from registration_excess_element [OF run_first_element h(1) run_second_valid h(2),
      of "[approved_registration]"] h
  show ?thesis by blast
qed

text \<open>
  The claim as stated fails when an earlier element raises. The queue holds one Node and the
  batch two elements; the second is valid and carries a \<open>cbsdId\<close>, but the first one, a
  refusal whose \<open>responseData\<close> is a list, makes the validity check add a list to a string:
  the batch ends with \<open>TypeError\<close>, and the index is never reached.
\<close>

theorem registration_excess_element_counterexample:
  "length (tempNodeList registering_state) = 1
   \<and> fst (isValidResponse (fld approved_registration ''response'') registering_state) = Inr True
   \<and> truthy (fld approved_registration ''cbsdId'')
   \<and> fst (handleRegistrationResponse
        (registration_batch [refused_registration, approved_registration])
        registering_state) = Inl TypeError"
  by code_simp

subsection \<open>The queue a request builder leaves\<close>

lemma bnd_reqAddressToNode_Inl:
  "reqAddressToNode q b s = (Inl e, s') \<Longrightarrow> bnd (reqAddressToNode q b) g s = (Inl e, s')"
  by (simp add: bnd_def)

lemma bnd_reqAddressToNode_Inr:
  "reqAddressToNode q b s = (Inr x, s') \<Longrightarrow> bnd (reqAddressToNode q b) g s = g x s'"
  by (simp add: bnd_def)

lemma bnd_reset [simp]: "bnd reset_tempNodeList g s = g () (s\<lparr>tempNodeList := []\<rparr>)"
  by (simp add: bnd_def reset_tempNodeList_def)

lemma bnd_append [simp]:
  "bnd (append_tempNodeList e) g s = g () (s\<lparr>tempNodeList := tempNodeList s @ [e]\<rparr>)"
  by (simp add: bnd_def append_tempNodeList_def)

lemma bnd_findCreatedNodeByIp [simp]:
  "bnd (findCreatedNodeByIp a) g s =
     g (findCreatedNodeByIp_in (heap s) (created_nodes s) a) s"
  by (simp add: bnd_def findCreatedNodeByIp_def)

lemma builders_reset:
  "simRegistrationReq requests (s\<lparr>tempNodeList := old\<rparr>) = simRegistrationReq requests s"
  "simGrantReq requests (s\<lparr>tempNodeList := old\<rparr>) = simGrantReq requests s"
  by (simp_all add: simRegistrationReq_def simGrantReq_def)

lemma reqAddressToNode_cases:
  obtains (raised) err ls where
      "\<And>ks. reqAddressToNode request b (printed_more s ks) = (Inl err, printed_more s (ks @ ls))"
  | (none) ls where
      "\<And>ks. reqAddressToNode request b (printed_more s ks) = (Inr None, printed_more s (ks @ ls))"
  | (found) r kvs where
      "\<And>ks. reqAddressToNode request b (printed_more s ks) = (Inr (Some r), printed_more s ks)"
      and "request = JObj kvs"
      and "findCreatedNodeByIp_in (heap s) (created_nodes s) (fld request ''nodeIp'') = Some r"
      and "b \<longrightarrow> truthy (cbsdId (heap s r))"
proof (cases "\<exists>kvs. request = JObj kvs")
  case False
  then have "grabPossibleEntry request (Some ''nodeIp'') = Inl TypeError"
    by (rule grab_non_dict)
  then have "reqAddressToNode request b (printed_more s ks) =
      (Inl TypeError, printed_more s (ks @ []))" for ks
    by (simp add: reqAddressToNode_def raise_def)
  then show ?thesis by (rule raised)
next
  case True
  then obtain kvs where r: "request = JObj kvs" by blast
  show ?thesis
  proof (cases "truthy (fld request ''nodeIp'')")
    case False
    then have "reqAddressToNode request b (printed_more s ks) =
        (Inr None, printed_more s (ks @ [Line ''No nodeIp address found.'']))" for ks
      unfolding r by (simp add: reqAddressToNode_def grab_fld ret_def del: grabPossibleEntry.simps)
    then show ?thesis by (rule none)
  next
    case t: True
    show ?thesis
    proof (cases "findCreatedNodeByIp_in (heap s) (created_nodes s) (fld request ''nodeIp'')")
      case None
      have "writer (bnd (print_add3 (''No Created Node was found with the IP Address: '' @ apos)
          (fld request ''nodeIp'') (apos @ ''.'')) (\<lambda>_. ret (None :: nat option)))"
        by (intro writer_bnd writer_print_add3 writer_ret)
      then obtain v ls where v: "\<And>t. bnd (print_add3
            (''No Created Node was found with the IP Address: '' @ apos)
            (fld request ''nodeIp'') (apos @ ''.'')) (\<lambda>_. ret (None :: nat option)) t =
            (v, printed_more t ls)"
        unfolding writer_def by blast
      have req: "reqAddressToNode request b (printed_more s ks) = (v, printed_more s (ks @ ls))"
        for ks
        using t None v [of "printed_more s ks"] unfolding r
        by (simp add: reqAddressToNode_def grab_fld del: grabPossibleEntry.simps)
      have "v = Inr None \<or> (\<exists>err. v = Inl err)"
        using v [of s] by (cases "fld request ''nodeIp''")
          (auto simp: print_add3_def bnd_def lift_def raise_def ret_def print_def
            simp del: bnd_print split: sum.splits prod.splits)
      with req show ?thesis using raised none by blast
    next
      case (Some x)
      show ?thesis
      proof (cases "b \<and> \<not> truthy (cbsdId (heap s x))")
        case True
        then have "reqAddressToNode request b (printed_more s ks) =
            (Inr None, printed_more s (ks @ [Line ''Node found but not yet registered.'']))"
          for ks
          using t Some unfolding r
          by (simp add: reqAddressToNode_def grab_fld ret_def del: grabPossibleEntry.simps)
        then show ?thesis by (rule none)
      next
        case False
        then have "reqAddressToNode request b (printed_more s ks) =
            (Inr (Some x), printed_more s ks)" for ks
          using t Some unfolding r
          by (auto simp add: reqAddressToNode_def grab_fld ret_def
                simp del: grabPossibleEntry.simps)
        moreover from False have "b \<longrightarrow> truthy (cbsdId (heap s x))" by auto
        ultimately show ?thesis using r Some found by blast
      qed
    qed
  qed
qed

lemma fld_RegistrationRequest_serial [simp]:
  "fld (RegistrationRequest [a1, a2, a3, a4, a5, a6, a7, a8, a9, a10, a11, a12])
     ''cbsdSerialNumber'' = a3"
  by (simp add: fld_def RegistrationRequest_def)

lemma grab_dict:
  assumes "request = JObj kvs"
  shows "grabPossibleEntry request (Some k) = Inr (fld request k)"
    and "grabPossibleEntry request None = Inr JNull"
  using assms by (simp_all add: grab_fld del: grabPossibleEntry.simps(1))

lemma simRegistrationReq_body_step:
  assumes "simRegistrationReq_body i arr request s = (Inr arr', s')"
  shows "heap s' = heap s
    \<and> (arr' = arr \<and> tempNodeList s' = tempNodeList s
       \<or> (\<exists>r req. arr' = arr @ [req] \<and> tempNodeList s' = tempNodeList s @ [NodeRef r]
            \<and> sent_for (heap s) (NodeRef r) req))"
proof -
  show ?thesis
  proof (cases rule: reqAddressToNode_cases [of request False s])
    case (raised err ls)
    with assms show ?thesis
      by (simp add: simRegistrationReq_body_def bnd_reqAddressToNode_Inl [OF raised])
  next
    case (none ls)
    with assms show ?thesis
      by (auto simp add: simRegistrationReq_body_def bnd_reqAddressToNode_Inr [OF none] ret_def)
  next
    case (found r kvs)
    show ?thesis
    proof (cases "truthy (serialNumber (heap s r))")
      case False
      with assms show ?thesis
        by (simp add: simRegistrationReq_body_def bnd_reqAddressToNode_Inr [OF found(1)]
              getIpaAddress_def raise_def)
    next
      case True
      with assms show ?thesis
        by (auto simp add: simRegistrationReq_body_def
              bnd_reqAddressToNode_Inr [OF found(1)] grab_dict [OF found(2)]
              ret_def sent_for_def split: if_splits)
    qed
  qed
qed

lemma simRegistrationReq_loop:
  assumes "for_each simRegistrationReq_body i arr requests s = (Inr arr', s')"
    and "list_all2 (sent_for (heap s)) (tempNodeList s) arr"
  shows "heap s' = heap s \<and> list_all2 (sent_for (heap s)) (tempNodeList s') arr'"
  using assms
proof (induction requests arbitrary: i arr s)
  case Nil
  then show ?case by (simp add: ret_def)
next
  case (Cons x xs)
  from Cons.prems(1) obtain arr1 s1 where
    b: "simRegistrationReq_body i arr x s = (Inr arr1, s1)"
    and rest: "for_each simRegistrationReq_body (Suc i) arr1 xs s1 = (Inr arr', s')"
    by (auto simp: bnd_def split: sum.splits prod.splits)
  from simRegistrationReq_body_step [OF b] Cons.prems(2)
  have h: "heap s1 = heap s" and q: "list_all2 (sent_for (heap s1)) (tempNodeList s1) arr1"
    by (auto intro: list_all2_appendI)
  from Cons.IH [OF rest q] h show ?case by simp
qed

lemma simRegistrationReq_queue:
  assumes "simRegistrationReq requests s = (Inr arr, s')"
  shows "heap s' = heap s \<and> list_all2 (sent_for (heap s)) (tempNodeList s') arr"
proof -
  from assms obtain rs where
    "for_each simRegistrationReq_body 0 [] rs (s\<lparr>tempNodeList := []\<rparr>) = (Inr arr, s')"
    by (cases "py_iter requests") (auto simp: simRegistrationReq_def raise_def)
  from simRegistrationReq_loop [OF this] show ?thesis by simp
qed

lemma handleRegistrationResponse_effect:
  "tempNodeList (snd (handleRegistrationResponse json_data s)) = tempNodeList s
   \<and> (heap (snd (handleRegistrationResponse json_data s)) r \<noteq> heap s r \<longrightarrow>
        (\<exists>rs i. py_iter (fld json_data ''registrationResponse'') = Inr rs \<and> i < length rs
           \<and> i < length (tempNodeList s) \<and> tempNodeList s ! i = NodeRef r
           \<and> heap (snd (handleRegistrationResponse json_data s)) r =
               (heap s r)\<lparr>cbsdId := fld (rs ! i) ''cbsdId''\<rparr>))"
proof (cases "\<exists>kvs. json_data = JObj kvs")
  case False
  then have "grabPossibleEntry json_data (Some ''registrationResponse'') = Inl TypeError"
    by (rule grab_non_dict)
  then show ?thesis by (simp add: handleRegistrationResponse_def raise_def)
next
  case True
  then obtain kvs where j: "json_data = JObj kvs" by blast
  note g = grab_dict(1) [OF j, of "''registrationResponse''"]
  show ?thesis
  proof (cases "truthy (fld json_data ''registrationResponse'')")
    case False
    then show ?thesis by (simp add: handleRegistrationResponse_def g print_printed_more)
  next
    case t: True
    show ?thesis
    proof (cases "py_iter (fld json_data ''registrationResponse'')")
      case (Inl err)
      with t show ?thesis by (simp add: handleRegistrationResponse_def g raise_def)
    next
      case (Inr rs)
      let ?t = "printed_more s [Line ''Registration Response Received'']"
      have run: "handleRegistrationResponse json_data s =
          for_each handleRegistrationResponse_body 0 () rs ?t"
        using t Inr by (simp add: handleRegistrationResponse_def g)
      have q: "tempNodeList (snd (handleRegistrationResponse json_data s)) = tempNodeList s"
        by (simp add: run registration_loop_tempNodeList)
      have h: "\<exists>i. i < length rs \<and> i < length (tempNodeList s) \<and> tempNodeList s ! i = NodeRef r
           \<and> heap (snd (handleRegistrationResponse json_data s)) r =
               (heap s r)\<lparr>cbsdId := fld (rs ! i) ''cbsdId''\<rparr>"
        if "heap (snd (handleRegistrationResponse json_data s)) r \<noteq> heap s r"
        using registration_loop_heap [of 0 "()" rs ?t r] that by (simp add: run)
      from q h Inr show ?thesis by blast
    qed
  qed
qed

lemma handleRegistrationResponse_body_assigns:
  assumes "fst (isValidResponse (fld e ''response'') s) = Inr True"
    and "truthy (fld e ''cbsdId'')" and "i < length (tempNodeList s)"
    and "tempNodeList s ! i = NodeRef r"
  shows "heap (snd (handleRegistrationResponse_body i u e s)) =
           (heap s)(r := (heap s r)\<lparr>cbsdId := fld e ''cbsdId''\<rparr>)"
  using assms handleRegistrationResponse_body_effect [of i u e s]
  by (simp add: assigned_def)

text \<open>
  Claim C1, as the code has it. A registration response batch leaves \<open>tempNodeList\<close> as it is,
  and a Node it changes is the Node at some index \<open>i\<close> of \<open>tempNodeList\<close>, changed only in
  its \<open>cbsdId\<close>, which is the one of the element at index \<open>i\<close> of the batch; the element at
  index \<open>k\<close>, when it is valid and carries a \<open>cbsdId\<close>, assigns it to the Node at index \<open>k\<close>
  and to no other. The list is read as it stands when the response is handled, which need not
  be the list of the registration batch: \<open>simRegistrationReq\<close> and \<open>simGrantReq\<close> each empty
  it before they fill it, so what they leave does not depend on what it held before. When
  \<open>simRegistrationReq\<close> returns, the list holds, in the order of the requests it returns, the
  Node whose serial number each request carries.
\<close>

theorem registration_positional_correlation:
  "tempNodeList (snd (handleRegistrationResponse json_data s)) = tempNodeList s
   \<and> (heap (snd (handleRegistrationResponse json_data s)) r \<noteq> heap s r \<longrightarrow>
        (\<exists>rs i. py_iter (fld json_data ''registrationResponse'') = Inr rs \<and> i < length rs
           \<and> i < length (tempNodeList s) \<and> tempNodeList s ! i = NodeRef r
           \<and> heap (snd (handleRegistrationResponse json_data s)) r =
               (heap s r)\<lparr>cbsdId := fld (rs ! i) ''cbsdId''\<rparr>))
   \<and> (fst (isValidResponse (fld e ''response'') s) = Inr True \<and> truthy (fld e ''cbsdId'')
        \<and> k < length (tempNodeList s) \<and> tempNodeList s ! k = NodeRef r' \<longrightarrow>
        heap (snd (handleRegistrationResponse_body k u e s)) =
          (heap s)(r' := (heap s r')\<lparr>cbsdId := fld e ''cbsdId''\<rparr>))
   \<and> simRegistrationReq requests (s\<lparr>tempNodeList := older\<rparr>) = simRegistrationReq requests s
   \<and> simGrantReq requests (s\<lparr>tempNodeList := older\<rparr>) = simGrantReq requests s
   \<and> (simRegistrationReq requests s = (Inr arr, s') \<longrightarrow>
        heap s' = heap s \<and> list_all2 (sent_for (heap s)) (tempNodeList s') arr)"
  using handleRegistrationResponse_effect [of json_data s r]
    handleRegistrationResponse_body_assigns [of e s k r' u]
    builders_reset [where requests = requests and s = s and old = older]
    simRegistrationReq_queue [of requests s arr s']
  by blast

lemma run_two_registrations:
  "cbsdId (heap (snd (handleRegistrationResponse
      (registration_batch [approved_registration, second_registration]) two_queued_state)) 0)
     = JStr ''CBSD-9''"
  "cbsdId (heap (snd (handleRegistrationResponse
      (registration_batch [approved_registration, second_registration]) two_queued_state)) 1)
     = JStr ''CBSD-1''"
  "cbsdId (heap two_queued_state 0) = JNull"
  by code_simp+

lemma run_second_element:
  "fst (isValidResponse (fld second_registration ''response'') two_queued_state) = Inr True"
  "truthy (fld second_registration ''cbsdId'')"
  "1 < length (tempNodeList two_queued_state)"
  "tempNodeList two_queued_state ! 1 = NodeRef 0"
  by code_simp+

lemma run_two_requests:
  "fst (simRegistrationReq two_requests two_queued_state) =
     Inr [RegistrationRequest [JStr ''U1'', JStr ''F1'', JStr ''S1'', JNull, JNull, JNull,
             JNull, JNull, JNull, JNull, JNull, JNull],
          RegistrationRequest [JStr ''U2'', JStr ''F2'', JStr ''S2'', JNull, JNull, JNull,
             JNull, JNull, JNull, JNull, JNull, JNull]]"
  "tempNodeList (snd (simRegistrationReq two_requests two_queued_state)) =
     [NodeRef 0, NodeRef 1]"
  by code_simp+

text \<open>
  Two Nodes are queued, Node 1 before Node 0, and the batch has two elements: the second
  element gives its \<open>cbsdId\<close> to Node 0, the Node at index 1, and the first to Node 1. A
  batch of two requests leaves the queue with the two Nodes in the order of the requests,
  whatever the queue held before.
\<close>

theorem registration_positional_correlation_witness:
  "heap (snd (handleRegistrationResponse
        (registration_batch [approved_registration, second_registration])
        two_queued_state)) 0 \<noteq> heap two_queued_state 0
   \<and> cbsdId (heap (snd (handleRegistrationResponse
        (registration_batch [approved_registration, second_registration])
        two_queued_state)) 0) = JStr ''CBSD-9''
   \<and> cbsdId (heap (snd (handleRegistrationResponse
        (registration_batch [approved_registration, second_registration])
        two_queued_state)) 1) = JStr ''CBSD-1''
   \<and> (\<exists>rs i. py_iter (fld (registration_batch [approved_registration, second_registration])
           ''registrationResponse'') = Inr rs \<and> i < length rs
         \<and> i < length (tempNodeList two_queued_state)
         \<and> tempNodeList two_queued_state ! i = NodeRef 0
         \<and> heap (snd (handleRegistrationResponse
              (registration_batch [approved_registration, second_registration])
              two_queued_state)) 0 =
             (heap two_queued_state 0)\<lparr>cbsdId := fld (rs ! i) ''cbsdId''\<rparr>)
   \<and> tempNodeList two_queued_state ! 1 = NodeRef 0
   \<and> heap (snd (handleRegistrationResponse_body 1 () second_registration two_queued_state)) =
       (heap two_queued_state)
         (0 := (heap two_queued_state 0)\<lparr>cbsdId := fld second_registration ''cbsdId''\<rparr>)
   \<and> simRegistrationReq two_requests (two_queued_state\<lparr>tempNodeList := [NodeRef 1]\<rparr>) =
       simRegistrationReq two_requests two_queued_state
   \<and> simGrantReq grant_requests (two_queued_state\<lparr>tempNodeList := [NodeRef 1]\<rparr>) =
       simGrantReq grant_requests two_queued_state
   \<and> tempNodeList (snd (simRegistrationReq two_requests two_queued_state)) =
       [NodeRef 0, NodeRef 1]
   \<and> list_all2 (sent_for (heap two_queued_state))
        (tempNodeList (snd (simRegistrationReq two_requests two_queued_state)))
        [RegistrationRequest [JStr ''U1'', JStr ''F1'', JStr ''S1'', JNull, JNull, JNull,
           JNull, JNull, JNull, JNull, JNull, JNull],
         RegistrationRequest [JStr ''U2'', JStr ''F2'', JStr ''S2'', JNull, JNull, JNull,
           JNull, JNull, JNull, JNull, JNull, JNull]]"
proof -
  have changed: "heap (snd (handleRegistrationResponse
      (registration_batch [approved_registration, second_registration])
      two_queued_state)) 0 \<noteq> heap two_queued_state 0"
    using run_two_registrations(1,3) by auto
  have built: "simRegistrationReq two_requests two_queued_state =
      (Inr [RegistrationRequest [JStr ''U1'', JStr ''F1'', JStr ''S1'', JNull, JNull, JNull,
             JNull, JNull, JNull, JNull, JNull, JNull],
            RegistrationRequest [JStr ''U2'', JStr ''F2'', JStr ''S2'', JNull, JNull, JNull,
             JNull, JNull, JNull, JNull, JNull, JNull]],
       snd (simRegistrationReq two_requests two_queued_state))"
    using run_two_requests(1) by (metis prod.collapse)
  note T = registration_positional_correlation
    [where json_data = "registration_batch [approved_registration, second_registration]"
      and s = two_queued_state and r = 0 and e = second_registration and k = 1 and r' = 0
      and u = "()" and older = "[NodeRef 1]"
      and arr = "[RegistrationRequest [JStr ''U1'', JStr ''F1'', JStr ''S1'', JNull, JNull,
             JNull, JNull, JNull, JNull, JNull, JNull, JNull],
            RegistrationRequest [JStr ''U2'', JStr ''F2'', JStr ''S2'', JNull, JNull, JNull,
             JNull, JNull, JNull, JNull, JNull, JNull]]"
      and s' = "snd (simRegistrationReq two_requests two_queued_state)"]
  have a: "\<exists>rs i. py_iter (fld (registration_batch [approved_registration, second_registration])
           ''registrationResponse'') = Inr rs \<and> i < length rs
         \<and> i < length (tempNodeList two_queued_state)
         \<and> tempNodeList two_queued_state ! i = NodeRef 0
         \<and> heap (snd (handleRegistrationResponse
              (registration_batch [approved_registration, second_registration])
              two_queued_state)) 0 =
             (heap two_queued_state 0)\<lparr>cbsdId := fld (rs ! i) ''cbsdId''\<rparr>"
    by (rule T [where requests = two_requests, THEN conjunct2, THEN conjunct1, THEN mp])
       (rule changed)
  have b: "heap (snd (handleRegistrationResponse_body 1 () second_registration
        two_queued_state)) =
       (heap two_queued_state)
         (0 := (heap two_queued_state 0)\<lparr>cbsdId := fld second_registration ''cbsdId''\<rparr>)"
    by (rule T [where requests = two_requests, THEN conjunct2, THEN conjunct2, THEN conjunct1,
          THEN mp])
       (intro conjI run_second_element)
  have r1: "simRegistrationReq two_requests (two_queued_state\<lparr>tempNodeList := [NodeRef 1]\<rparr>) =
       simRegistrationReq two_requests two_queued_state"
    by (rule T [where requests = two_requests, THEN conjunct2, THEN conjunct2, THEN conjunct2,
          THEN conjunct1])
  have r2: "simGrantReq grant_requests (two_queued_state\<lparr>tempNodeList := [NodeRef 1]\<rparr>) =
       simGrantReq grant_requests two_queued_state"
    by (rule T [where requests = grant_requests, THEN conjunct2, THEN conjunct2,
          THEN conjunct2, THEN conjunct2, THEN conjunct1])
  have c: "list_all2 (sent_for (heap two_queued_state))
        (tempNodeList (snd (simRegistrationReq two_requests two_queued_state)))
        [RegistrationRequest [JStr ''U1'', JStr ''F1'', JStr ''S1'', JNull, JNull, JNull,
           JNull, JNull, JNull, JNull, JNull, JNull],
         RegistrationRequest [JStr ''U2'', JStr ''F2'', JStr ''S2'', JNull, JNull, JNull,
           JNull, JNull, JNull, JNull, JNull, JNull]]"
    using T [where requests = two_requests, THEN conjunct2, THEN conjunct2, THEN conjunct2,
          THEN conjunct2, THEN conjunct2, THEN mp, OF built]
    by (rule conjunct2)
  from changed run_two_registrations(1,2) a run_second_element(4) b r1 r2 run_two_requests(2) c
  show ?thesis by (intro conjI)
qed

text \<open>
  The claim as stated fails when another request batch is built before the registration
  response arrives. The registration batch queues Node 0; the grant batch built next queues
  Node 1 instead; the registration response that comes then gives its \<open>cbsdId\<close> to Node 1,
  which the registration batch never held, and Node 0 stays unregistered.
\<close>

theorem registration_late_response_counterexample:
  "tempNodeList after_registration_request = [NodeRef 0]
   \<and> tempNodeList after_grant_request = [NodeRef 1]
   \<and> cbsdId (heap after_grant_request 0) = JNull
   \<and> cbsdId (heap after_grant_request 1) = JStr ''CBSD-2''
   \<and> cbsdId (heap after_late_response 0) = JNull
   \<and> cbsdId (heap after_late_response 1) = JStr ''CBSD-1''"
  by code_simp

subsection \<open>How the other handlers resolve a Node\<close>






lemma heap_print_add3 [simp]: "heap (snd (print_add3 l x r t)) = heap t"
  by (rule writer_heap) simp

lemma heap_print_add3_ret [simp]:
  "heap (snd (bnd (print_add3 l x r) (\<lambda>_. ret y) t)) = heap t"
  by (rule writer_heap) (intro writer_bnd writer_print_add3 writer_ret)

lemma truthy_fld_truthy: "truthy (fld x k) \<Longrightarrow> truthy x"
  by (cases x) (auto simp: fld_def)

lemma valid_cases:
  obtains (rejected) "fld (fld e ''response'') ''responseCode'' \<noteq> JStr ''0''"
  | (raised) err ls kvs where "e = JObj kvs"
      and "\<And>t. isValidResponse (fld e ''response'') t = (Inl err, printed_more t ls)"
  | (valid) ls kvs where "e = JObj kvs"
      and "\<And>t. isValidResponse (fld e ''response'') t = (Inr True, printed_more t ls)"
proof (cases "fld (fld e ''response'') ''responseCode'' = JStr ''0''")
  case False
  then show ?thesis by (rule rejected)
next
  case True
  then have "truthy (fld (fld e ''response'') ''responseCode'')" by simp
  then have "truthy (fld e ''response'')" by (rule truthy_fld_truthy)
  then obtain kvs where e: "e = JObj kvs" using truthy_fld_dict by blast
  obtain v ls where v: "\<And>t. isValidResponse (fld e ''response'') t = (v, printed_more t ls)"
    using writer_isValidResponse [of "fld e ''response''"] unfolding writer_def by blast
  have "v \<noteq> Inr False"
  proof
    assume "v = Inr False"
    with v have f: "isValidResponse (fld e ''response'') t = (Inr False, printed_more t ls)" for t
      by simp
    obtain rk where r: "fld e ''response'' = JObj rk"
      using \<open>truthy (fld (fld e ''response'') ''responseCode'')\<close> truthy_fld_dict by blast
    have "rk \<noteq> []" using \<open>truthy (fld e ''response'')\<close> r by auto
    with f [of undefined] True show False
      unfolding r
      by (auto simp add: isValidResponse_def grab_fld bnd_def ret_def print_def print_add_def
            lift_def simp del: grabPossibleEntry.simps bnd_print
            split: if_splits sum.splits prod.splits)
  qed
  then consider err where "v = Inl err" | "v = Inr True"
    by (cases v) auto
  then show ?thesis using e v raised valid by cases blast+
qed



lemma bnd_Timer_start [simp]:
  "bnd (Timer_start d f) g s = g () (s\<lparr>timers := timers s @
        [\<lparr>interval = d, target = f, cancelled = False, fired = False\<rparr>]\<rparr>)"
  by (simp add: bnd_def Timer_start_def)











subsection \<open>A registration request of a Node without serial number\<close>

text \<open>
  Claim C9 at a failing input. The Node of the first request has no serial number: the
  statement that builds the diagnostic reads \<open>node.getIpaAddress\<close> and raises, so nothing is
  printed for that request, the exception leaves \<open>simRegistrationReq\<close>, and the second
  request is never looked at. A request without \<open>userId\<close>, by contrast, is reported and
  skipped, and the request after it is built.
\<close>

theorem registration_missing_serial_raises:
  "serialNumber (heap unserialled_state 0) = JNull
   \<and> fst (simRegistrationReq two_requests unserialled_state) = Inl AttributeError
   \<and> tempNodeList (snd (simRegistrationReq two_requests unserialled_state)) = []
   \<and> stdout (snd (simRegistrationReq two_requests unserialled_state)) =
       [Line ''Creating Registration Request [1]:'']
   \<and> tempNodeList (snd (simRegistrationReq requests_without_userId idle_state)) = [NodeRef 1]
   \<and> stdout (snd (simRegistrationReq requests_without_userId idle_state)) =
       [Line ''Creating Registration Request [1]:'',
        Line ''No userId found for simRegistrationReq. Registration Request invalid.'',
        Line ''Creating Registration Request [2]:'']"
  by code_simp

subsection \<open>Heartbeat timers\<close>

text \<open>
  Claim C3 at a failing input. After a heartbeat request was sent, \<open>__heartbeatTimer\<close> is
  \<open>None\<close>; the handler of the successful response with \<open>heartbeatInterval\<close> 10 raises
  \<open>AttributeError\<close> at \<open>__heartbeatTimer.cancel()\<close> and arms no renewal timer: the only timer
  is still the expiry timer. Were the loop body reached, it would arm a timer of 9 seconds on
  \<open>heartbeatRequest\<close>; when that timer fires, \<open>heartbeatRequest\<close> is called without its
  argument, raises \<open>TypeError\<close>, and no request is sent.
\<close>

theorem heartbeat_response_arms_no_renewal:
  "heartbeatTimer heartbeat_sent_state = None
   \<and> fst (handleHeartbeatResponse example_float (heartbeat_batch [successful_heartbeat])
        heartbeat_sent_state) = Inl AttributeError
   \<and> map target (timers (snd (handleHeartbeatResponse example_float
        (heartbeat_batch [successful_heartbeat]) heartbeat_sent_state))) = [node_stop]
   \<and> map interval (timers renewal_armed_state) = [9]
   \<and> map target (timers renewal_armed_state) = [heartbeatRequest_cb]
   \<and> fst (fire 0 renewal_armed_state) = Inl TypeError
   \<and> emitted (snd (fire 0 renewal_armed_state)) = []"
  by code_simp

text \<open>
  Claim C4 at a failing input. The heartbeat request starts the expiry timer of 240 seconds
  but keeps no handle of it. The response handler raises \<open>AttributeError\<close> before it cancels
  anything, the timer stays armed, and when it fires the radio is stopped although the
  response came in time. If no import binds \<open>node_stop\<close>, the request itself raises
  \<open>NameError\<close> and no timer is started at all.
\<close>

theorem heartbeat_watchdog_not_cancelled:
  "map interval (timers heartbeat_sent_state) = [240]
   \<and> map target (timers heartbeat_sent_state) = [node_stop]
   \<and> fst (handleHeartbeatResponse example_float (heartbeat_batch [successful_heartbeat])
        heartbeat_sent_state) = Inl AttributeError
   \<and> map cancelled (timers (snd (handleHeartbeatResponse example_float
        (heartbeat_batch [successful_heartbeat]) heartbeat_sent_state))) = [False]
   \<and> node_stop_calls (snd (fire 0 (snd (handleHeartbeatResponse example_float
        (heartbeat_batch [successful_heartbeat]) heartbeat_sent_state)))) = 1
   \<and> fst (heartbeatRequest False (built (JArr [JNull])) interactive_state) = Inl NameError
   \<and> timers (snd (heartbeatRequest False (built (JArr [JNull])) interactive_state)) = []
   \<and> heartbeatTimer (snd (heartbeatRequest False (built (JArr [JNull])) interactive_state))
       = None"
  by code_simp

text \<open>
  Claim C8 at a failing input. A Node holds a Grant, and an expiry timer and a renewal timer
  are pending. The successful relinquishment response resets the Grant to its empty state, and
  both timers are still pending afterwards: the handler cancels nothing.
\<close>

theorem relinquishment_leaves_timers:
  "grantStatus (nodeGrant (heap granted_state 1)) = GRANTED
   \<and> fst (handleRelinquishmentResponse (relinquishment_batch [successful_relinquishment])
        granted_state) = Inr ()
   \<and> nodeGrant (heap (snd (handleRelinquishmentResponse
        (relinquishment_batch [successful_relinquishment]) granted_state)) 1) = empty_grant
   \<and> map target (timers (snd (handleRelinquishmentResponse
        (relinquishment_batch [successful_relinquishment]) granted_state))) =
       [node_stop, heartbeatRequest_cb]
   \<and> map cancelled (timers (snd (handleRelinquishmentResponse
        (relinquishment_batch [successful_relinquishment]) granted_state))) = [False, False]"
  by code_simp

text \<open>
  In every state in which \<open>__heartbeatTimer\<close> is \<open>None\<close> the response handler raises at its
  first statement and changes nothing; \<open>heartbeatRequest\<close>, the only function that assigns
  the variable, leaves it \<open>None\<close>. The relinquishment and grant handlers never touch a timer.
\<close>

lemma handleHeartbeatResponse_without_handle:
  "heartbeatTimer s = None \<Longrightarrow> handleHeartbeatResponse parse jsonData s = (Inl AttributeError, s)"
  by (simp add: handleHeartbeatResponse_def bnd_def)

lemma heartbeatRequest_stores_no_handle:
  "heartbeatTimer s = None \<Longrightarrow> heartbeatTimer (snd (heartbeatRequest b src s)) = None"
  by (cases src) (simp_all add: heartbeatRequest_def emit_def bnd_def Timer_start_def raise_def)

lemma writer_timers: "writer f \<Longrightarrow> timers (snd (f s)) = timers s"
  unfolding writer_def by auto

lemma timers_print_add3 [simp]: "timers (snd (print_add3 l x r t)) = timers t"
  by (rule writer_timers) simp

lemma timers_print_add3_ret [simp]:
  "timers (snd (bnd (print_add3 l x r) (\<lambda>_. ret y) t)) = timers t"
  by (rule writer_timers) (intro writer_bnd writer_print_add3 writer_ret)

lemma for_each_preserves:
  assumes "\<And>i l x s. f (snd (body i l x s)) = f s"
  shows "f (snd (for_each body i l xs s)) = f s"
proof (induction xs arbitrary: i l s)
  case Nil
  show ?case by (simp add: ret_def)
next
  case (Cons x xs)
  show ?case by (simp add: snd_bnd assms Cons.IH split: sum.splits)
qed

lemma handleRelinquishmentResponse_body_timers:
  "timers (snd (handleRelinquishmentResponse_body i u e s)) = timers s"
proof (cases rule: valid_cases [of e])
  case rejected
  then show ?thesis
  proof (cases rule: rejected_cases)
    case not_dict
    then show ?thesis by (simp add: handleRelinquishmentResponse_body_def raise_def)
  next
    case (raised err ls)
    then show ?thesis
      by (simp add: handleRelinquishmentResponse_body_def bnd_Inl [OF raised(2)])
  next
    case (invalid ls)
    then show ?thesis
      by (simp add: handleRelinquishmentResponse_body_def bnd_Inr [OF invalid(2)]
            print_printed_more)
  qed
next
  case (raised err ls kvs)
  show ?thesis
    by (simp add: handleRelinquishmentResponse_body_def grab_dict [OF raised(1)]
          bnd_Inl [OF raised(2)])
next
  case (valid ls kvs)
  show ?thesis
    by (auto simp add: handleRelinquishmentResponse_body_def grab_dict [OF valid(1)]
          bnd_Inr [OF valid(2)] print_printed_more update_grant_def
          split: if_splits sum.splits option.splits)
qed

lemma handleRelinquishmentResponse_timers:
  "timers (snd (handleRelinquishmentResponse jsonData s)) = timers s"
proof -
  have loop: "timers (snd (for_each handleRelinquishmentResponse_body i u xs t)) = timers t"
    for i u xs t
    by (rule for_each_preserves) (rule handleRelinquishmentResponse_body_timers)
  show ?thesis
    by (cases "grabPossibleEntry jsonData (Some ''relinquishmentResponse'')";
        cases "py_iter (fld jsonData ''relinquishmentResponse'')")
      (auto simp add: handleRelinquishmentResponse_def raise_def print_printed_more loop fld_def)
qed

lemma handleGrantResponse_body_timers:
  "timers (snd (handleGrantResponse_body i lh e s)) = timers s"
proof (cases rule: valid_cases [of e])
  case rejected
  then show ?thesis
  proof (cases rule: rejected_cases)
    case not_dict
    then show ?thesis by (simp add: handleGrantResponse_body_def raise_def)
  next
    case (raised err ls)
    then show ?thesis
      by (simp add: handleGrantResponse_body_def bnd_Inl [OF raised(2)])
  next
    case (invalid ls)
    have w: "writer (bnd (suggested_operationParam lh e)
        (\<lambda>lh'. bnd (print ''Grant invalid.'') (\<lambda>_. ret lh')))"
      by (intro writer_bnd writer_suggested_operationParam writer_print writer_ret)
    from invalid show ?thesis
      by (simp add: handleGrantResponse_body_def bnd_Inr [OF invalid(2)] writer_timers [OF w])
  qed
next
  case (raised err ls kvs)
  show ?thesis
    by (simp add: handleGrantResponse_body_def grab_dict [OF raised(1)] bnd_Inl [OF raised(2)])
next
  case (valid ls kvs)
  show ?thesis
    by (auto simp add: handleGrantResponse_body_def grab_dict [OF valid(1)] bnd_Inr [OF valid(2)]
          ret_def update_grant_def bnd_def [of "update_grant _ _"]
          split: if_splits sum.splits option.splits)
qed

lemma handleGrantResponse_timers:
  "timers (snd (handleGrantResponse jsonData s)) = timers s"
proof -
  have loop: "timers (snd (for_each handleGrantResponse_body i lh xs t)) = timers t"
    for i lh xs t
    by (rule for_each_preserves) (rule handleGrantResponse_body_timers)
  show ?thesis
    by (cases "grabPossibleEntry jsonData (Some ''grantResponse'')";
        cases "py_iter (fld jsonData ''grantResponse'')")
      (auto simp add: handleGrantResponse_def raise_def print_printed_more loop fld_def
         snd_bnd ret_def split: sum.splits)
qed

end
